theory Spec2Isabelle
  imports Main "HOL-Library.Word"
begin

section \<open>Values shared by the modules\<close>

text \<open>
  The application is a PyQt6 form (\<^verbatim>\<open>ui/main_window.py\<close>) over a single SQLite table
  (\<^verbatim>\<open>database/database_manager.py\<close>). Python integers are \<^typ>\<open>int\<close>, Python strings
  are \<^typ>\<open>string\<close>, file and \<^verbatim>\<open>QByteArray\<close> contents are lists of bytes.
\<close>

type_synonym byte = "8 word"

text \<open>
  A value bound to a statement (\<^verbatim>\<open>List[Union[str, int]]\<close>) or stored in a cell.
  \<open>RealVal v\<close> is the floating-point value SQLite keeps in a cell when the integer
  \<open>v\<close> it is given does not fit its 64-bit integers.
\<close>

datatype sqlval = Null | IntVal int | TextVal string | RealVal int

definition fits_int64 :: "int \<Rightarrow> bool" where
  "fits_int64 v = (- (2 ^ 63) \<le> v \<and> v < 2 ^ 63)"

text \<open>What \<^verbatim>\<open>QSqlQuery.lastError()\<close> reports, kept structured instead of as driver text.\<close>

datatype driver_error =
    NoError
  | ConnectionNotOpen
  | NoSuchTable string
  | NoSuchColumn string
  | ParameterCountMismatch
  | DatabaseFull
  | CorruptSequence
  | StorageFault string
  | StatementNotModelled

text \<open>
  The exceptions the modelled code raises. \<^verbatim>\<open>ValueError\<close> carries the two numbers its
  message interpolates (placeholders expected, bind values received); \<^verbatim>\<open>OSError\<close> is what
  \<^verbatim>\<open>shutil.copy\<close> raises.
\<close>

datatype exn = ValueError nat nat | OSError string

text \<open>
  A call of the logger: its level, the message (an f-string is the list of its literal
  and interpolated parts) and the further positional arguments of the call.
\<close>

datatype log_level = ERROR | INFO

datatype log_part = Txt string | Exn exn | Err driver_error

type_synonym log_entry = "log_level \<times> log_part list \<times> log_part list"

text \<open>
  The outcome of running a Python function on a state: the exception that propagates to
  the caller (\<open>None\<close> for a normal return) and the state the call leaves behind.
\<close>

type_synonym 's outcome = "exn option \<times> 's"

section \<open>\<^verbatim>\<open>initialize_database\<close>: the file system\<close>

text \<open>
  The files that exist, with their contents, and what the operating system does to a
  write: the paths at which a file can not be created, and, when a copy breaks off after
  its target was created (a full disk), the number of bytes written until then.
\<close>

record filesystem =
  files :: "string \<rightharpoonup> byte list"
  write_refused :: "string set"
  copy_breaks_after :: "nat option"
  fs_log :: "log_entry list"

definition fs_logger_error :: "log_part list \<Rightarrow> log_part list \<Rightarrow> filesystem \<Rightarrow> filesystem" where
  "fs_logger_error msg args fs = fs\<lparr>fs_log := fs_log fs @ [(ERROR, msg, args)]\<rparr>"

definition os_path_exists :: "string \<Rightarrow> filesystem \<Rightarrow> bool" where
  "os_path_exists p fs = (files fs p \<noteq> None)"

text \<open>
  \<^verbatim>\<open>shutil.copy(src, dst)\<close> opens the source, creates the destination and writes the
  bytes to it. It raises when the source is missing, when the destination can not be
  created (nothing is written then), and when the writing breaks off (the destination
  then exists and holds the bytes written so far).
\<close>

definition shutil_copy :: "string \<Rightarrow> string \<Rightarrow> filesystem \<Rightarrow> filesystem outcome" where
  "shutil_copy src dst fs =
     (case files fs src of
        None \<Rightarrow> (Some (OSError ''No such file or directory''), fs)
      | Some bytes \<Rightarrow>
          if dst \<in> write_refused fs then (Some (OSError ''Permission denied''), fs)
          else
            (case copy_breaks_after fs of
               None \<Rightarrow> (None, fs\<lparr>files := (files fs)(dst \<mapsto> bytes)\<rparr>)
             | Some n \<Rightarrow>
                 (Some (OSError ''No space left on device''),
                  fs\<lparr>files := (files fs)(dst \<mapsto> take n bytes)\<rparr>)))"

text \<open>
  \<^verbatim>\<open>QSqlDatabase.open()\<close> of the QSQLITE driver on a path: an existing file is opened as
  it is, a missing one is created empty, and \<open>False\<close> is returned when it cannot be
  created. \<^verbatim>\<open>close()\<close> leaves the file as it is.
\<close>

definition qsqlite_open :: "string \<Rightarrow> filesystem \<Rightarrow> bool \<times> filesystem" where
  "qsqlite_open p fs =
     (if files fs p \<noteq> None then (True, fs)
      else if p \<in> write_refused fs then (False, fs)
      else (True, fs\<lparr>files := (files fs)(p \<mapsto> [])\<rparr>))"

text \<open>
  The body of the \<^verbatim>\<open>try\<close> block. The two paths are module globals built from
  \<^verbatim>\<open>tracker_config.DB_NAME\<close>, the working directory and the home directory; they are
  parameters here.
\<close>

definition initialize_database_try :: "string \<Rightarrow> string \<Rightarrow> filesystem \<Rightarrow> filesystem outcome" where
  "initialize_database_try db_path target_db_path fs =
     (if \<not> os_path_exists target_db_path fs then
        (if os_path_exists db_path fs then shutil_copy db_path target_db_path fs
         else
           (case qsqlite_open target_db_path fs of
              (opened, fs') \<Rightarrow>
                (None, if \<not> opened
                       then fs_logger_error [Txt ''Error: Unable to create database''] [] fs'
                       else fs')))
      else (None, fs))"

definition initialize_database :: "string \<Rightarrow> string \<Rightarrow> filesystem \<Rightarrow> filesystem outcome" where
  "initialize_database db_path target_db_path fs =
     (case initialize_database_try db_path target_db_path fs of
        (None, fs') \<Rightarrow> (None, fs')
      | (Some e, fs') \<Rightarrow>
          (None, fs_logger_error [Txt ''Error: Unable to create database''] [Exn e] fs'))"

section \<open>\<^verbatim>\<open>DataManager\<close>: the connection and its table\<close>

subsection \<open>The database behind the connection\<close>

text \<open>
  A database is its tables by name. A table has its declared columns (name and declared
  type) and its rows; a row is its rowid and one cell per declared column. For its
  \<^verbatim>\<open>AUTOINCREMENT\<close> keys SQLite keeps a table of its own, \<^verbatim>\<open>sqlite_sequence\<close>, with one
  row per table: the table's name and the largest key ever handed out in it.
\<close>

type_synonym column = "string \<times> string"

type_synonym row = "int \<times> sqlval list"

record table =
  tbl_columns :: "column list"
  tbl_rows :: "row list"

type_synonym database = "string \<rightharpoonup> table"

definition autoincrement_key :: string where
  "autoincrement_key = ''INTEGER PRIMARY KEY AUTOINCREMENT''"

definition sequence_table_name :: string where
  "sequence_table_name = ''sqlite_sequence''"

definition sequence_columns :: "column list" where
  "sequence_columns = [(''name'', []), (''seq'', [])]"

definition max_int64 :: int where
  "max_int64 = 2 ^ 63 - 1"

fun max_rowid :: "row list \<Rightarrow> int" where
  "max_rowid [] = 0"
| "max_rowid [(i, _)] = i"
| "max_rowid ((i, _) # r # rs) = max i (max_rowid (r # rs))"

definition has_autoincrement :: "table \<Rightarrow> bool" where
  "has_autoincrement t = (autoincrement_key \<in> set (map snd (tbl_columns t)))"

text \<open>
  The first row of \<^verbatim>\<open>sqlite_sequence\<close> for a table: its rowid and its \<^verbatim>\<open>seq\<close> cell.
\<close>

fun find_sequence :: "string \<Rightarrow> row list \<Rightarrow> (int \<times> sqlval) option" where
  "find_sequence n [] = None"
| "find_sequence n ((rid, cells) # rs) =
     (case cells of
        [TextVal m, sq] \<Rightarrow> if m = n then Some (rid, sq) else find_sequence n rs
      | _ \<Rightarrow> find_sequence n rs)"

text \<open>
  The largest key ever handed out in a table, as an insert reads it: 0 when
  \<^verbatim>\<open>sqlite_sequence\<close> has no row for the table, and \<open>None\<close>, on which the insert is
  refused, when \<^verbatim>\<open>sqlite_sequence\<close> is missing or the row does not hold an integer.
\<close>

definition sequence_value :: "string \<Rightarrow> database \<Rightarrow> int option" where
  "sequence_value n db =
     (case db sequence_table_name of
        None \<Rightarrow> None
      | Some st \<Rightarrow>
          (case find_sequence n (tbl_rows st) of
             None \<Rightarrow> Some 0
           | Some (_, IntVal s) \<Rightarrow> Some s
           | Some (_, _) \<Rightarrow> None))"

text \<open>After the insert the row of the table holds the new key; it is added when missing.\<close>

fun replace_sequence :: "string \<Rightarrow> int \<Rightarrow> row list \<Rightarrow> row list" where
  "replace_sequence n v [] = []"
| "replace_sequence n v ((rid, cells) # rs) =
     (case cells of
        [TextVal m, sq] \<Rightarrow>
          if m = n then (rid, [TextVal n, IntVal v]) # rs
          else (rid, cells) # replace_sequence n v rs
      | _ \<Rightarrow> (rid, cells) # replace_sequence n v rs)"

definition put_sequence :: "string \<Rightarrow> int \<Rightarrow> row list \<Rightarrow> row list" where
  "put_sequence n v rs =
     (if find_sequence n rs = None then rs @ [(max_rowid rs + 1, [TextVal n, IntVal v])]
      else replace_sequence n v rs)"

definition store_sequence :: "string \<Rightarrow> int \<Rightarrow> database \<Rightarrow> database" where
  "store_sequence n v db =
     (case db sequence_table_name of
        None \<Rightarrow> db
      | Some st \<Rightarrow> db(sequence_table_name \<mapsto> st\<lparr>tbl_rows := put_sequence n v (tbl_rows st)\<rparr>))"

text \<open>
  \<^verbatim>\<open>CREATE TABLE IF NOT EXISTS name (columns)\<close>: a table of that name is left as it is;
  otherwise the table is created empty, and with it \<^verbatim>\<open>sqlite_sequence\<close> when the new
  table has an \<^verbatim>\<open>AUTOINCREMENT\<close> key and the database has no \<^verbatim>\<open>sqlite_sequence\<close> yet.
\<close>

definition create_table_if_not_exists :: "string \<Rightarrow> column list \<Rightarrow> database \<Rightarrow> database" where
  "create_table_if_not_exists name cols db =
     (case db name of
        Some _ \<Rightarrow> db
      | None \<Rightarrow>
          (let db1 = db(name \<mapsto> \<lparr>tbl_columns = cols, tbl_rows = []\<rparr>)
           in if autoincrement_key \<in> set (map snd cols) \<and> db1 sequence_table_name = None
              then db1(sequence_table_name \<mapsto> \<lparr>tbl_columns = sequence_columns, tbl_rows = []\<rparr>)
              else db1))"

text \<open>
  What SQLite keeps in a cell for a bound value: text and 64-bit integers as they are; an
  integer beyond 64 bits reaches the \<^verbatim>\<open>INTEGER\<close> column as text and is kept as a
  floating-point value.
\<close>

fun stored_value :: "sqlval \<Rightarrow> sqlval" where
  "stored_value (IntVal v) = (if fits_int64 v then IntVal v else RealVal v)"
| "stored_value v = v"

text \<open>
  \<^verbatim>\<open>INSERT INTO name(cols) VALUES (?, ..., ?)\<close> with the bound values: the key column
  gets the new rowid, a named column what SQLite keeps for its bound value, any other
  column \<open>Null\<close>. The new rowid is one more than the largest rowid in the table, and for
  an \<^verbatim>\<open>AUTOINCREMENT\<close> key never less than one more than the largest key ever handed
  out; when that is the largest 64-bit integer the insert is refused. (Without
  \<^verbatim>\<open>AUTOINCREMENT\<close> SQLite then looks for an unused rowid; that search is not modelled
  and the insert is refused as well.)
\<close>

definition insert_cells :: "string list \<Rightarrow> sqlval list \<Rightarrow> int \<Rightarrow> column list \<Rightarrow> sqlval list" where
  "insert_cells names vals rid cols =
     map (\<lambda>(c, ty).
            if ty = autoincrement_key then IntVal rid
            else (case map_of (zip names vals) c of Some v \<Rightarrow> stored_value v | None \<Rightarrow> Null)) cols"

definition insert_row :: "string \<Rightarrow> string list \<Rightarrow> sqlval list \<Rightarrow> database \<Rightarrow> driver_error + database" where
  "insert_row name names vals db =
     (case db name of
        None \<Rightarrow> Inl (NoSuchTable name)
      | Some t \<Rightarrow>
          if length vals \<noteq> length names then Inl ParameterCountMismatch
          else
            (case filter (\<lambda>c. c \<notin> set (map fst (tbl_columns t))) names of
               c # _ \<Rightarrow> Inl (NoSuchColumn c)
             | [] \<Rightarrow>
                 if has_autoincrement t then
                   (case sequence_value name db of
                      None \<Rightarrow> Inl CorruptSequence
                    | Some s \<Rightarrow>
                        (let top = max s (max_rowid (tbl_rows t))
                         in if max_int64 \<le> top then Inl DatabaseFull
                            else Inr (store_sequence name (top + 1)
                                   (db(name \<mapsto>
                                      t\<lparr>tbl_rows := tbl_rows t @
                                          [(top + 1,
                                            insert_cells names vals (top + 1) (tbl_columns t))]\<rparr>)))))
                 else
                   (let top = max_rowid (tbl_rows t)
                    in if max_int64 \<le> top then Inl DatabaseFull
                       else Inr (db(name \<mapsto>
                              t\<lparr>tbl_rows := tbl_rows t @
                                  [(top + 1,
                                    insert_cells names vals (top + 1) (tbl_columns t))]\<rparr>)))))"

subsection \<open>The statements of the module\<close>

text \<open>
  A triple-quoted literal: its first line, then each further line after a newline and
  the indentation it has in the source file.
\<close>

definition py_lines :: "nat \<Rightarrow> string \<Rightarrow> string list \<Rightarrow> string" where
  "py_lines n first rest = first @ concat (map (\<lambda>l. CHR 0x0A # replicate n CHR '' '' @ l) rest)"

definition altman_table_name :: string where
  "altman_table_name = ''altman_refined_table''"

definition altman_columns :: "column list" where
  "altman_columns =
     [(''id'', autoincrement_key),
      (''altman_date'', ''TEXT''),
      (''altman_time'', ''TEXT''),
      (''altman_question'', ''INTEGER''),
      (''altman_question_2'', ''INTEGER''),
      (''altman_question_3'', ''INTEGER''),
      (''altman_question_4'', ''INTEGER''),
      (''altman_question_5'', ''INTEGER''),
      (''altmans_summary'', ''INTEGER'')]"

definition create_altman_sql :: string where
  "create_altman_sql =
     py_lines 24 ''''
       [''CREATE TABLE IF NOT EXISTS altman_refined_table ('',
        ''id INTEGER PRIMARY KEY AUTOINCREMENT,'',
        ''altman_date TEXT,'',
        ''altman_time TEXT,'',
        ''altman_question INTEGER,'',
        ''altman_question_2 INTEGER,'',
        ''altman_question_3 INTEGER,'',
        ''altman_question_4 INTEGER,'',
        ''altman_question_5 INTEGER,'',
        ''altmans_summary INTEGER'',
        '')'']"

definition insert_altman_names :: "string list" where
  "insert_altman_names =
     [''altman_date'', ''altman_time'', ''altman_question'', ''altman_question_2'',
      ''altman_question_3'', ''altman_question_4'', ''altman_question_5'', ''altmans_summary'']"

definition insert_altman_sql :: string where
  "insert_altman_sql =
     py_lines 12 ''INSERT INTO altman_refined_table(''
       [''altman_date,'',
        ''altman_time,'',
        ''altman_question,'',
        ''altman_question_2,'',
        ''altman_question_3,'',
        ''altman_question_4,'',
        ''altman_question_5,'',
        ''altmans_summary'',
        '') VALUES (?, ?, ?, ?, ?, ?, ?, ?)'']"

text \<open>\<^verbatim>\<open>str.count\<close> of a one-character pattern.\<close>

definition str_count :: "string \<Rightarrow> char \<Rightarrow> nat" where
  "str_count s c = length (filter (\<lambda>x. x = c) s)"

subsection \<open>The connection, the query object and the driver\<close>

text \<open>
  The connection with its query object. \<open>storage_fault\<close> is the failure, if any, that
  the storage under an open connection answers a statement with (a full disk, a locked
  or unreadable file).
\<close>

record data_manager =
  is_open :: bool
  db_tables :: database
  storage_fault :: "string option"
  prepared :: string
  bound :: "sqlval list"
  last_error :: driver_error
  dm_log :: "log_entry list"

definition logger_error :: "log_part list \<Rightarrow> log_part list \<Rightarrow> data_manager \<Rightarrow> data_manager" where
  "logger_error msg args dm = dm\<lparr>dm_log := dm_log dm @ [(ERROR, msg, args)]\<rparr>"

definition logger_info :: "string \<Rightarrow> data_manager \<Rightarrow> data_manager" where
  "logger_info msg dm = dm\<lparr>dm_log := dm_log dm @ [(INFO, [Txt msg], [])]\<rparr>"

text \<open>
  The QSQLITE driver running a statement with its bound values. It covers the two
  statements this module issues. A statement fails, and changes nothing, on a connection
  that is not open and when the storage fails.
\<close>

definition sqlite_run :: "string \<Rightarrow> sqlval list \<Rightarrow> data_manager \<Rightarrow> bool \<times> data_manager" where
  "sqlite_run sql vals dm =
     (if \<not> is_open dm then (False, dm\<lparr>last_error := ConnectionNotOpen\<rparr>)
      else
        (case storage_fault dm of
           Some why \<Rightarrow> (False, dm\<lparr>last_error := StorageFault why\<rparr>)
         | None \<Rightarrow>
             if sql = create_altman_sql then
               (True, dm\<lparr>db_tables := create_table_if_not_exists altman_table_name altman_columns
                                          (db_tables dm),
                         last_error := NoError\<rparr>)
             else if sql = insert_altman_sql then
               (case insert_row altman_table_name insert_altman_names vals (db_tables dm) of
                  Inl err \<Rightarrow> (False, dm\<lparr>last_error := err\<rparr>)
                | Inr db' \<Rightarrow> (True, dm\<lparr>db_tables := db', last_error := NoError\<rparr>))
             else (False, dm\<lparr>last_error := StatementNotModelled\<rparr>)))"

text \<open>\<^verbatim>\<open>QSqlQuery.exec(sql)\<close>, \<^verbatim>\<open>prepare(sql)\<close>, \<^verbatim>\<open>addBindValue(v)\<close> and \<^verbatim>\<open>exec()\<close>.\<close>

definition query_exec_sql :: "string \<Rightarrow> data_manager \<Rightarrow> bool \<times> data_manager" where
  "query_exec_sql sql dm = sqlite_run sql [] (dm\<lparr>prepared := sql, bound := []\<rparr>)"

definition query_prepare :: "string \<Rightarrow> data_manager \<Rightarrow> data_manager" where
  "query_prepare sql dm = dm\<lparr>prepared := sql, bound := []\<rparr>"

definition query_addBindValue :: "sqlval \<Rightarrow> data_manager \<Rightarrow> data_manager" where
  "query_addBindValue v dm = dm\<lparr>bound := bound dm @ [v]\<rparr>"

definition query_exec :: "data_manager \<Rightarrow> bool \<times> data_manager" where
  "query_exec dm = sqlite_run (prepared dm) (bound dm) dm"

subsection \<open>The methods\<close>

definition setup_altman_table :: "data_manager \<Rightarrow> data_manager" where
  "setup_altman_table dm =
     (case query_exec_sql create_altman_sql dm of
        (ok, dm') \<Rightarrow>
          if \<not> ok
          then logger_error [Txt ''Error creating table: altman_refined_table'']
                 [Err (last_error dm')] dm'
          else dm')"

definition setup_tables :: "data_manager \<Rightarrow> data_manager" where
  "setup_tables dm = setup_altman_table dm"

text \<open>
  The constructor. Its argument is what the driver finds at \<^verbatim>\<open>db_name\<close>: the database
  in the file when \<^verbatim>\<open>open()\<close> succeeds, \<open>None\<close> when it fails. \<open>open_connection\<close> is
  the connection and the query object before any statement has run.
\<close>

definition open_connection :: "database option \<Rightarrow> data_manager" where
  "open_connection found =
     \<lparr>is_open = (found \<noteq> None),
      db_tables = (case found of Some db \<Rightarrow> db | None \<Rightarrow> Map.empty),
      storage_fault = None,
      prepared = [], bound = [], last_error = NoError, dm_log = []\<rparr>"

definition DataManager_init :: "database option \<Rightarrow> data_manager" where
  "DataManager_init found =
     (let dm0 = open_connection found;
          dm1 = (if \<not> is_open dm0
                 then logger_error [Txt ''Error: Unable to open database''] [] dm0
                 else dm0);
          dm2 = logger_info ''DB INITIALIZING'' dm1
      in setup_tables dm2)"

text \<open>
  The \<^verbatim>\<open>try\<close> block of \<^verbatim>\<open>insert_into_altman_table\<close>, with the statement text, the bind
  list and the \<^verbatim>\<open>exec()\<close> of the driver as parameters; the method below fixes them.
\<close>

definition insert_try ::
  "(data_manager \<Rightarrow> bool \<times> data_manager) \<Rightarrow> string \<Rightarrow> sqlval list \<Rightarrow> data_manager
     \<Rightarrow> data_manager outcome" where
  "insert_try exec sql bind_values dm =
     (let dm1 = query_prepare sql dm;
          dm2 = fold query_addBindValue bind_values dm1
      in if str_count sql CHR ''?'' \<noteq> length bind_values
         then (Some (ValueError (str_count sql CHR ''?'') (length bind_values)), dm2)
         else
           (case exec dm2 of
              (ok, dm3) \<Rightarrow>
                (None, if \<not> ok
                       then logger_error
                              [Txt ''Error inserting data: altman_refined_table - '',
                               Err (last_error dm3)] [] dm3
                       else dm3)))"

definition insert_handled ::
  "(data_manager \<Rightarrow> bool \<times> data_manager) \<Rightarrow> string \<Rightarrow> sqlval list \<Rightarrow> data_manager
     \<Rightarrow> data_manager outcome" where
  "insert_handled exec sql bind_values dm =
     (case insert_try exec sql bind_values dm of
        (None, dm') \<Rightarrow> (None, dm')
      | (Some (ValueError a b), dm') \<Rightarrow>
          (None, logger_error [Txt ''ValueError altman_refined_table: '', Exn (ValueError a b)] [] dm')
      | (Some e, dm') \<Rightarrow>
          (None, logger_error [Txt ''Error during data insertion: altman_refined_table '', Exn e] [] dm'))"

definition bind_values_of ::
  "string \<Rightarrow> string \<Rightarrow> int \<Rightarrow> int \<Rightarrow> int \<Rightarrow> int \<Rightarrow> int \<Rightarrow> int \<Rightarrow> sqlval list" where
  "bind_values_of a_date a_time q1 q2 q3 q4 q5 summary =
     [TextVal a_date, TextVal a_time, IntVal q1, IntVal q2, IntVal q3, IntVal q4, IntVal q5,
      IntVal summary]"

definition insert_into_altman_table ::
  "data_manager \<Rightarrow> string \<Rightarrow> string \<Rightarrow> int \<Rightarrow> int \<Rightarrow> int \<Rightarrow> int \<Rightarrow> int \<Rightarrow> int
     \<Rightarrow> data_manager outcome" where
  "insert_into_altman_table dm a_date a_time q1 q2 q3 q4 q5 summary =
     insert_handled query_exec insert_altman_sql
       (bind_values_of a_date a_time q1 q2 q3 q4 q5 summary) dm"

text \<open>
  \<^verbatim>\<open>close_database\<close> is defined at module level, after the class, with a parameter
  named \<^verbatim>\<open>self\<close>.
\<close>

definition close_database :: "data_manager \<Rightarrow> data_manager" where
  "close_database dm =
     (let dm1 = logger_info ''if database is open'' dm
      in if is_open dm1
         then (logger_info ''the database is closed successfully'' dm1)\<lparr>is_open := False\<rparr>
         else dm1)"

section \<open>\<^verbatim>\<open>MainWindow\<close>\<close>

text \<open>
  The window: the date and the time of the two edit widgets as the text that is stored,
  the values of the five sliders and of the summary widget, the data manager, the
  window's geometry and state and the persisted \<^verbatim>\<open>QSettings\<close>.
\<close>

record main_window =
  altman_date :: string
  altman_time :: string
  altman_question :: int
  altman_question_2 :: int
  altman_question_3 :: int
  altman_question_4 :: int
  altman_question_5 :: int
  altmans_summary :: int
  db_manager :: data_manager
  geometry :: "byte list"
  window_state :: "byte list"
  settings :: "string \<rightharpoonup> byte list"

definition slider_values :: "main_window \<Rightarrow> int list" where
  "slider_values w =
     [altman_question w, altman_question_2 w, altman_question_3 w, altman_question_4 w,
      altman_question_5 w]"

definition update_altmans_summary :: "main_window \<Rightarrow> main_window" where
  "update_altmans_summary w =
     (let vals = filter (\<lambda>v. v > 0) (slider_values w);
          altmans_sum = sum_list vals
      in w\<lparr>altmans_summary := altmans_sum\<rparr>)"

text \<open>\<^verbatim>\<open>QAbstractSlider.setRange(lo, hi)\<close> moves the current value into the range.\<close>

definition setRange :: "int \<Rightarrow> int \<Rightarrow> int \<Rightarrow> int" where
  "setRange lo hi v = max lo (min (max lo hi) v)"

text \<open>
  \<^verbatim>\<open>altman_table_commit\<close>: connecting the signals and disabling the summary widget
  change no value; each slider gets the range 0 to 4.
\<close>

definition altman_table_commit :: "main_window \<Rightarrow> main_window" where
  "altman_table_commit w =
     w\<lparr>altman_question := setRange 0 4 (altman_question w),
       altman_question_2 := setRange 0 4 (altman_question_2 w),
       altman_question_3 := setRange 0 4 (altman_question_3 w),
       altman_question_4 := setRange 0 4 (altman_question_4 w),
       altman_question_5 := setRange 0 4 (altman_question_5 w)\<rparr>"

definition save_state :: "main_window \<Rightarrow> main_window" where
  "save_state w =
     w\<lparr>settings := (settings w)(''geometry'' \<mapsto> geometry w, ''windowState'' \<mapsto> window_state w)\<rparr>"

definition closeEvent :: "main_window \<Rightarrow> main_window" where
  "closeEvent w = save_state w"

text \<open>
  Modelled from the spec: \<^verbatim>\<open>add_altmans_data\<close> (\<^verbatim>\<open>database/altman_add_data.py\<close> is
  not among the source files). On the commit action the form controller collects the
  date, the time, the five slider values and the summary value and invokes the record
  writer with these eight values in column order. \<^verbatim>\<open>altman_table_commit\<close> connects the
  commit action to it with the names of the eight widgets and with
  \<^verbatim>\<open>self.db_manager.insert_into_altman_table\<close> as the writer.
\<close>

definition add_altmans_data ::
  "main_window \<Rightarrow>
   (data_manager \<Rightarrow> string \<Rightarrow> string \<Rightarrow> int \<Rightarrow> int \<Rightarrow> int \<Rightarrow> int \<Rightarrow> int \<Rightarrow> int
      \<Rightarrow> data_manager outcome) \<Rightarrow> main_window" where
  "add_altmans_data w insert_into =
     w\<lparr>db_manager :=
         snd (insert_into (db_manager w) (altman_date w) (altman_time w)
                (altman_question w) (altman_question_2 w) (altman_question_3 w)
                (altman_question_4 w) (altman_question_5 w) (altmans_summary w))\<rparr>"

definition actionCommit_triggered :: "main_window \<Rightarrow> main_window" where
  "actionCommit_triggered w = add_altmans_data w insert_into_altman_table"

section \<open>Example states\<close>

text \<open>
  A window whose sliders hold the given answers, over a data manager constructed on an
  empty database file.
\<close>

definition window_with :: "int \<Rightarrow> int \<Rightarrow> int \<Rightarrow> int \<Rightarrow> int \<Rightarrow> main_window" where
  "window_with q1 q2 q3 q4 q5 =
     \<lparr>altman_date = ''2024-01-01'', altman_time = ''10:00'',
      altman_question = q1, altman_question_2 = q2, altman_question_3 = q3,
      altman_question_4 = q4, altman_question_5 = q5, altmans_summary = 0,
      db_manager = DataManager_init (Some Map.empty),
      geometry = [], window_state = [], settings = Map.empty\<rparr>"

text \<open>
  The database after three submissions and the deletion of the third: two rows are left
  and the largest key handed out so far is 3.
\<close>

definition database_after_delete :: database where
  "database_after_delete =
     [altman_table_name \<mapsto>
        \<lparr>tbl_columns = altman_columns,
         tbl_rows =
           [(1, [IntVal 1, TextVal ''2024-01-01'', TextVal ''10:00'',
                 IntVal 1, IntVal 2, IntVal 0, IntVal 3, IntVal 4, IntVal 10]),
            (2, [IntVal 2, TextVal ''2024-01-02'', TextVal ''10:00'',
                 IntVal 0, IntVal 2, IntVal 0, IntVal 3, IntVal 0, IntVal 5])]\<rparr>,
      sequence_table_name \<mapsto>
        \<lparr>tbl_columns = sequence_columns,
         tbl_rows = [(1, [TextVal altman_table_name, IntVal 3])]\<rparr>]"

text \<open>
  A database file that already holds a table named \<^verbatim>\<open>altman_refined_table\<close> with fewer
  columns than the module declares.
\<close>

definition older_table :: table where
  "older_table =
     \<lparr>tbl_columns = [(''id'', autoincrement_key), (''altman_date'', ''TEXT''),
                     (''altman_question'', ''INTEGER'')],
      tbl_rows = [(1, [IntVal 1, TextVal ''2023-05-01'', IntVal 2])]\<rparr>"

definition older_database :: database where
  "older_database =
     [altman_table_name \<mapsto> older_table,
      sequence_table_name \<mapsto>
        \<lparr>tbl_columns = sequence_columns,
         tbl_rows = [(1, [TextVal altman_table_name, IntVal 1])]\<rparr>]"

text \<open>
  A file system where the template exists and the target can not be created, one where
  the template exists and the copy succeeds, and one where neither file exists and the
  target can be created.
\<close>

definition read_only_home :: filesystem where
  "read_only_home =
     \<lparr>files = [''./DB_NAME'' \<mapsto> [83, 81, 76]], write_refused = {''~/DB_NAME''},
      copy_breaks_after = None, fs_log = []\<rparr>"

definition template_only :: filesystem where
  "template_only =
     \<lparr>files = [''./DB_NAME'' \<mapsto> [83, 81, 76]], write_refused = {},
      copy_breaks_after = None, fs_log = []\<rparr>"

definition empty_disk :: filesystem where
  "empty_disk =
     \<lparr>files = Map.empty, write_refused = {}, copy_breaks_after = None, fs_log = []\<rparr>"

section \<open>Facts about the statements and the driver\<close>

lemma statements_differ: "insert_altman_sql \<noteq> create_altman_sql"
  by (simp add: insert_altman_sql_def create_altman_sql_def py_lines_def)

lemma names_differ: "altman_table_name \<noteq> sequence_table_name"
  by (simp add: altman_table_name_def sequence_table_name_def)

lemma placeholders_insert_altman_sql: "str_count insert_altman_sql CHR ''?'' = 8"
  by (simp add: insert_altman_sql_def py_lines_def str_count_def)

lemma length_bind_values_of: "length (bind_values_of d tm q1 q2 q3 q4 q5 s) = 8"
  by (simp add: bind_values_of_def)

lemma fold_addBindValue:
  "fold query_addBindValue vs dm = dm\<lparr>bound := bound dm @ vs\<rparr>"
  by (induction vs arbitrary: dm) (simp_all add: query_addBindValue_def)

lemma prepare_then_bind:
  "fold query_addBindValue vs (query_prepare sql dm) = dm\<lparr>prepared := sql, bound := vs\<rparr>"
  by (simp add: fold_addBindValue query_prepare_def)

lemma has_autoincrement_declared:
  "tbl_columns t = altman_columns \<Longrightarrow> has_autoincrement t"
  by (simp add: has_autoincrement_def altman_columns_def)

lemma insert_cells_declared:
  "insert_cells insert_altman_names (bind_values_of d tm q1 q2 q3 q4 q5 s) rid altman_columns =
     IntVal rid # map stored_value (bind_values_of d tm q1 q2 q3 q4 q5 s)"
  by (simp add: insert_cells_def insert_altman_names_def bind_values_of_def altman_columns_def
      autoincrement_key_def)

lemma names_declared:
  "filter (\<lambda>c. c \<notin> fst ` set altman_columns) insert_altman_names = []"
  by (simp add: insert_altman_names_def altman_columns_def)

lemma length_names: "length insert_altman_names = 8"
  by (simp add: insert_altman_names_def)

text \<open>The insert into the declared table: when it is refused and what it leaves.\<close>

lemma insert_row_declared:
  assumes "db altman_table_name = Some t" and "tbl_columns t = altman_columns"
  shows "insert_row altman_table_name insert_altman_names
           (bind_values_of d tm q1 q2 q3 q4 q5 s) db =
         (case sequence_value altman_table_name db of
            None \<Rightarrow> Inl CorruptSequence
          | Some sq \<Rightarrow>
              if max_int64 \<le> max sq (max_rowid (tbl_rows t)) then Inl DatabaseFull
              else Inr (store_sequence altman_table_name (max sq (max_rowid (tbl_rows t)) + 1)
                     (db(altman_table_name \<mapsto>
                        t\<lparr>tbl_rows := tbl_rows t @
                            [(max sq (max_rowid (tbl_rows t)) + 1,
                              IntVal (max sq (max_rowid (tbl_rows t)) + 1)
                                # map stored_value (bind_values_of d tm q1 q2 q3 q4 q5 s))]\<rparr>))))"
  using assms
  by (simp add: insert_row_def length_bind_values_of length_names names_declared
      insert_cells_declared has_autoincrement_declared Let_def split: option.splits)

lemma insert_row_refusal_ignores_values:
  "length vals = length vals' \<Longrightarrow>
   isl (insert_row name names vals db) = isl (insert_row name names vals' db)"
  by (simp add: insert_row_def Let_def split: option.splits list.splits)

lemma store_sequence_elsewhere:
  "n \<noteq> sequence_table_name \<Longrightarrow> store_sequence m v db n = db n"
  by (simp add: store_sequence_def split: option.splits)

lemma find_sequence_replace:
  "find_sequence n (replace_sequence n v rs) =
     map_option (\<lambda>(r, _). (r, IntVal v)) (find_sequence n rs)"
proof (induction rs)
  case Nil
  then show ?case by simp
next
  case (Cons r rs)
  obtain rid cells where r: "r = (rid, cells)" by (cases r)
  show ?case
    using Cons.IH
    by (simp add: r split: list.splits sqlval.splits)
qed

lemma find_sequence_append:
  "find_sequence n rs = None \<Longrightarrow>
   find_sequence n (rs @ [(k, [TextVal n, IntVal v])]) = Some (k, IntVal v)"
proof (induction rs)
  case Nil
  then show ?case by simp
next
  case (Cons r rs)
  obtain rid cells where r: "r = (rid, cells)" by (cases r)
  from Cons.prems have "find_sequence n rs = None"
    by (simp add: r split: list.splits sqlval.splits if_splits)
  with Cons.IH Cons.prems show ?case
    by (simp add: r split: list.splits sqlval.splits if_splits)
qed

lemma sequence_value_stored:
  "db sequence_table_name \<noteq> None \<Longrightarrow>
   sequence_value n (store_sequence n v db) = Some v"
proof -
  assume "db sequence_table_name \<noteq> None"
  then obtain st where st: "db sequence_table_name = Some st" by blast
  show ?thesis
  proof (cases "find_sequence n (tbl_rows st)")
    case None
    then show ?thesis
      by (simp add: sequence_value_def store_sequence_def st put_sequence_def
          find_sequence_append)
  next
    case (Some a)
    then show ?thesis
      by (cases a)
         (simp add: sequence_value_def store_sequence_def st put_sequence_def
          find_sequence_replace)
  qed
qed

lemma sequence_value_elsewhere:
  "n \<noteq> sequence_table_name \<Longrightarrow> sequence_value m (db(n \<mapsto> t)) = sequence_value m db"
  by (simp add: sequence_value_def)

lemma sqlite_run_insert_open:
  "is_open dm \<Longrightarrow> storage_fault dm = None \<Longrightarrow>
   sqlite_run insert_altman_sql vals dm =
     (case insert_row altman_table_name insert_altman_names vals (db_tables dm) of
        Inl err \<Rightarrow> (False, dm\<lparr>last_error := err\<rparr>)
      | Inr db' \<Rightarrow> (True, dm\<lparr>db_tables := db', last_error := NoError\<rparr>))"
  by (simp add: sqlite_run_def statements_differ)

lemma sqlite_run_create_open:
  "is_open dm \<Longrightarrow> storage_fault dm = None \<Longrightarrow>
   sqlite_run create_altman_sql vals dm =
     (True, dm\<lparr>db_tables := create_table_if_not_exists altman_table_name altman_columns
                               (db_tables dm),
               last_error := NoError\<rparr>)"
  by (simp add: sqlite_run_def)

lemma sqlite_run_closed:
  "\<not> is_open dm \<Longrightarrow> sqlite_run sql vals dm = (False, dm\<lparr>last_error := ConnectionNotOpen\<rparr>)"
  by (simp add: sqlite_run_def)

lemma sqlite_run_keeps_log: "dm_log (snd (sqlite_run sql vals dm)) = dm_log dm"
  by (simp add: sqlite_run_def split: sum.splits option.splits)

lemma sqlite_run_succeeds:
  "fst (sqlite_run sql vals dm) \<Longrightarrow> is_open dm \<and> storage_fault dm = None"
  by (simp add: sqlite_run_def split: if_splits option.splits)

lemma insert_handled_matching:
  "str_count sql CHR ''?'' = length vs \<Longrightarrow>
   insert_handled exec sql vs dm =
     (case exec (dm\<lparr>prepared := sql, bound := vs\<rparr>) of
        (ok, dm3) \<Rightarrow>
          (None, if \<not> ok
                 then logger_error
                        [Txt ''Error inserting data: altman_refined_table - '',
                         Err (last_error dm3)] [] dm3
                 else dm3))"
  by (simp add: insert_handled_def insert_try_def prepare_then_bind Let_def split: prod.splits)

lemma insert_handled_mismatch:
  "str_count sql CHR ''?'' \<noteq> length vs \<Longrightarrow>
   insert_handled exec sql vs dm =
     (None, logger_error
              [Txt ''ValueError altman_refined_table: '',
               Exn (ValueError (str_count sql CHR ''?'') (length vs))] []
              (dm\<lparr>prepared := sql, bound := vs\<rparr>))"
  by (simp add: insert_handled_def insert_try_def prepare_then_bind Let_def)

lemma sqlite_run_keeps_bound: "bound (snd (sqlite_run sql vals dm)) = bound dm"
  by (simp add: sqlite_run_def split: sum.splits option.splits)

lemma insert_method:
  "insert_into_altman_table dm d tm q1 q2 q3 q4 q5 s =
     (case query_exec (dm\<lparr>prepared := insert_altman_sql,
                            bound := bind_values_of d tm q1 q2 q3 q4 q5 s\<rparr>) of
        (ok, dm3) \<Rightarrow>
          (None, if ok then dm3
                 else logger_error
                        [Txt ''Error inserting data: altman_refined_table - '',
                         Err (last_error dm3)] [] dm3))"
proof -
  have cnt: "str_count insert_altman_sql CHR ''?'' = length (bind_values_of d tm q1 q2 q3 q4 q5 s)"
    by (simp add: placeholders_insert_altman_sql length_bind_values_of)
  show ?thesis
    unfolding insert_into_altman_table_def
    by (simp add: insert_handled_matching [OF cnt] split: prod.splits)
qed

lemma insert_quiet_iff:
  "(dm_log (snd (insert_into_altman_table dm d tm q1 q2 q3 q4 q5 s)) = dm_log dm) =
     fst (query_exec (dm\<lparr>prepared := insert_altman_sql,
                           bound := bind_values_of d tm q1 q2 q3 q4 q5 s\<rparr>))"
proof -
  let ?dm2 = "dm\<lparr>prepared := insert_altman_sql, bound := bind_values_of d tm q1 q2 q3 q4 q5 s\<rparr>"
  have log: "dm_log (snd (query_exec ?dm2)) = dm_log dm"
    by (simp add: query_exec_def sqlite_run_keeps_log)
  show ?thesis
    using log
    by (cases "query_exec ?dm2") (auto simp add: insert_method logger_error_def)
qed

lemma insert_bound:
  "bound (snd (insert_into_altman_table dm d tm q1 q2 q3 q4 q5 s)) =
     bind_values_of d tm q1 q2 q3 q4 q5 s"
proof -
  let ?dm2 = "dm\<lparr>prepared := insert_altman_sql, bound := bind_values_of d tm q1 q2 q3 q4 q5 s\<rparr>"
  have b: "bound (snd (query_exec ?dm2)) = bind_values_of d tm q1 q2 q3 q4 q5 s"
    by (simp add: query_exec_def sqlite_run_keeps_bound)
  show ?thesis
    using b
    by (cases "query_exec ?dm2") (auto simp add: insert_method logger_error_def)
qed

lemma insert_acceptance_ignores_values:
  "fst (query_exec (dm\<lparr>prepared := insert_altman_sql,
                          bound := bind_values_of d tm q1 q2 q3 q4 q5 s\<rparr>)) =
   fst (query_exec (dm\<lparr>prepared := insert_altman_sql,
                          bound := bind_values_of d' tm' r1 r2 r3 r4 r5 s'\<rparr>))"
proof -
  have "isl (insert_row altman_table_name insert_altman_names
               (bind_values_of d tm q1 q2 q3 q4 q5 s) (db_tables dm)) =
        isl (insert_row altman_table_name insert_altman_names
               (bind_values_of d' tm' r1 r2 r3 r4 r5 s') (db_tables dm))"
    by (rule insert_row_refusal_ignores_values) (simp add: length_bind_values_of)
  then show ?thesis
    by (auto simp add: query_exec_def sqlite_run_def statements_differ
        split: option.splits sum.splits)
qed

text \<open>A quiet insert into the declared table: what held before it and what it leaves.\<close>

lemma insert_declared_quiet:
  assumes tab: "db_tables dm altman_table_name = Some t"
    and cols: "tbl_columns t = altman_columns"
    and quiet: "dm_log (snd (insert_into_altman_table dm d tm q1 q2 q3 q4 q5 s)) = dm_log dm"
  shows "\<exists>sq. sequence_value altman_table_name (db_tables dm) = Some sq
           \<and> max sq (max_rowid (tbl_rows t)) < max_int64
           \<and> is_open dm \<and> storage_fault dm = None
           \<and> insert_into_altman_table dm d tm q1 q2 q3 q4 q5 s =
               (None, dm\<lparr>db_tables :=
                            store_sequence altman_table_name (max sq (max_rowid (tbl_rows t)) + 1)
                              ((db_tables dm)(altman_table_name \<mapsto>
                                 t\<lparr>tbl_rows := tbl_rows t @
                                     [(max sq (max_rowid (tbl_rows t)) + 1,
                                       IntVal (max sq (max_rowid (tbl_rows t)) + 1)
                                         # map stored_value
                                             (bind_values_of d tm q1 q2 q3 q4 q5 s))]\<rparr>)),
                          prepared := insert_altman_sql,
                          bound := bind_values_of d tm q1 q2 q3 q4 q5 s,
                          last_error := NoError\<rparr>)"
proof -
  let ?vs = "bind_values_of d tm q1 q2 q3 q4 q5 s"
  let ?dm2 = "dm\<lparr>prepared := insert_altman_sql, bound := ?vs\<rparr>"
  from quiet have ok: "fst (query_exec ?dm2)"
    by (simp add: insert_quiet_iff)
  then have "fst (sqlite_run insert_altman_sql ?vs ?dm2)"
    by (simp add: query_exec_def)
  from sqlite_run_succeeds [OF this]
  have opened: "is_open dm" and sound: "storage_fault dm = None"
    by simp_all
  have run: "query_exec ?dm2 =
     (case insert_row altman_table_name insert_altman_names ?vs (db_tables dm) of
        Inl err \<Rightarrow> (False, ?dm2\<lparr>last_error := err\<rparr>)
      | Inr db' \<Rightarrow> (True, ?dm2\<lparr>db_tables := db', last_error := NoError\<rparr>))"
    using opened sound by (simp add: query_exec_def sqlite_run_insert_open)
  note row = insert_row_declared [where db = "db_tables dm" and t = t, OF tab cols, of d tm q1 q2 q3 q4 q5 s]
  show ?thesis
  proof (cases "sequence_value altman_table_name (db_tables dm)")
    case None
    with ok run row show ?thesis by simp
  next
    case (Some sq)
    show ?thesis
    proof (cases "max_int64 \<le> max sq (max_rowid (tbl_rows t))")
      case True
      with ok run row Some show ?thesis by simp
    next
      case False
      then have below: "max sq (max_rowid (tbl_rows t)) < max_int64"
        by linarith
      from False run row Some have
        "insert_into_altman_table dm d tm q1 q2 q3 q4 q5 s =
               (None, dm\<lparr>db_tables :=
                            store_sequence altman_table_name (max sq (max_rowid (tbl_rows t)) + 1)
                              ((db_tables dm)(altman_table_name \<mapsto>
                                 t\<lparr>tbl_rows := tbl_rows t @
                                     [(max sq (max_rowid (tbl_rows t)) + 1,
                                       IntVal (max sq (max_rowid (tbl_rows t)) + 1)
                                         # map stored_value
                                             (bind_values_of d tm q1 q2 q3 q4 q5 s))]\<rparr>)),
                          prepared := insert_altman_sql,
                          bound := bind_values_of d tm q1 q2 q3 q4 q5 s,
                          last_error := NoError\<rparr>)"
        by (simp add: insert_method)
      with below Some opened sound show ?thesis
        by blast
    qed
  qed
qed

lemma DataManager_init_opened:
  "DataManager_init (Some db) =
     \<lparr>is_open = True,
      db_tables = create_table_if_not_exists altman_table_name altman_columns db,
      storage_fault = None,
      prepared = create_altman_sql, bound = [], last_error = NoError,
      dm_log = [(INFO, [Txt ''DB INITIALIZING''], [])]\<rparr>"
  by (simp add: DataManager_init_def open_connection_def setup_tables_def setup_altman_table_def
      query_exec_sql_def sqlite_run_create_open logger_info_def)

lemma fresh_tables:
  "create_table_if_not_exists altman_table_name altman_columns Map.empty =
     [altman_table_name \<mapsto> \<lparr>tbl_columns = altman_columns, tbl_rows = []\<rparr>,
      sequence_table_name \<mapsto> \<lparr>tbl_columns = sequence_columns, tbl_rows = []\<rparr>]"
  by (simp add: create_table_if_not_exists_def Let_def names_differ [symmetric])
     (simp add: altman_columns_def)

lemma fresh_manager:
  "DataManager_init (Some Map.empty) =
     \<lparr>is_open = True,
      db_tables =
        [altman_table_name \<mapsto> \<lparr>tbl_columns = altman_columns, tbl_rows = []\<rparr>,
         sequence_table_name \<mapsto> \<lparr>tbl_columns = sequence_columns, tbl_rows = []\<rparr>],
      storage_fault = None,
      prepared = create_altman_sql, bound = [], last_error = NoError,
      dm_log = [(INFO, [Txt ''DB INITIALIZING''], [])]\<rparr>"
  by (simp add: DataManager_init_opened fresh_tables)

text \<open>The first insert through a fresh data manager.\<close>

lemma first_insert:
  "insert_into_altman_table (DataManager_init (Some Map.empty)) d tm q1 q2 q3 q4 q5 s =
     (None,
      \<lparr>is_open = True,
       db_tables =
         [altman_table_name \<mapsto>
            \<lparr>tbl_columns = altman_columns,
             tbl_rows = [(1, IntVal 1 # map stored_value (bind_values_of d tm q1 q2 q3 q4 q5 s))]\<rparr>,
          sequence_table_name \<mapsto>
            \<lparr>tbl_columns = sequence_columns,
             tbl_rows = [(1, [TextVal altman_table_name, IntVal 1])]\<rparr>],
       storage_fault = None,
       prepared = insert_altman_sql, bound = bind_values_of d tm q1 q2 q3 q4 q5 s,
       last_error = NoError,
       dm_log = [(INFO, [Txt ''DB INITIALIZING''], [])]\<rparr>)"
proof -
  let ?dm = "DataManager_init (Some Map.empty)"
  let ?vs = "bind_values_of d tm q1 q2 q3 q4 q5 s"
  let ?t = "\<lparr>tbl_columns = altman_columns, tbl_rows = []\<rparr>"
  have tab: "db_tables ?dm altman_table_name = Some ?t"
    by (simp add: fresh_manager names_differ)
  have seq: "sequence_value altman_table_name (db_tables ?dm) = Some 0"
    by (simp add: fresh_manager sequence_value_def)
  have row: "insert_row altman_table_name insert_altman_names ?vs (db_tables ?dm) =
      Inr (store_sequence altman_table_name 1
             ((db_tables ?dm)(altman_table_name \<mapsto> ?t\<lparr>tbl_rows := [(1, IntVal 1 # map stored_value ?vs)]\<rparr>)))"
    using insert_row_declared [where db = "db_tables ?dm" and t = ?t, OF tab, of d tm q1 q2 q3 q4 q5 s]
    by (simp add: seq max_int64_def)
  have stored: "store_sequence altman_table_name 1
             ((db_tables ?dm)(altman_table_name \<mapsto> ?t\<lparr>tbl_rows := [(1, IntVal 1 # map stored_value ?vs)]\<rparr>)) =
         [altman_table_name \<mapsto>
            \<lparr>tbl_columns = altman_columns,
             tbl_rows = [(1, IntVal 1 # map stored_value ?vs)]\<rparr>,
          sequence_table_name \<mapsto>
            \<lparr>tbl_columns = sequence_columns,
             tbl_rows = [(1, [TextVal altman_table_name, IntVal 1])]\<rparr>]"
    by (simp add: fresh_manager store_sequence_def put_sequence_def names_differ
        names_differ [symmetric] fun_upd_twist)
  have opened: "is_open (?dm\<lparr>prepared := insert_altman_sql, bound := ?vs\<rparr>)"
    and sound: "storage_fault (?dm\<lparr>prepared := insert_altman_sql, bound := ?vs\<rparr>) = None"
    by (simp_all add: fresh_manager)
  have "query_exec (?dm\<lparr>prepared := insert_altman_sql, bound := ?vs\<rparr>) =
      (True, ?dm\<lparr>prepared := insert_altman_sql, bound := ?vs,
                  db_tables := [altman_table_name \<mapsto>
            \<lparr>tbl_columns = altman_columns,
             tbl_rows = [(1, IntVal 1 # map stored_value ?vs)]\<rparr>,
          sequence_table_name \<mapsto>
            \<lparr>tbl_columns = sequence_columns,
             tbl_rows = [(1, [TextVal altman_table_name, IntVal 1])]\<rparr>],
                  last_error := NoError\<rparr>)"
    using row stored
    by (simp add: query_exec_def sqlite_run_insert_open [OF opened sound])
  then show ?thesis
    by (simp add: insert_method) (simp add: fresh_manager)
qed

lemma sequence_value_table:
  "sequence_value n db = Some s \<Longrightarrow> db sequence_table_name \<noteq> None"
  by (simp add: sequence_value_def split: option.splits)

lemma max_rowid_bound: "r \<in> set rs \<Longrightarrow> fst r \<le> max_rowid rs"
proof (induction rs rule: max_rowid.induct)
  case 1
  then show ?case by simp
next
  case (2 i c)
  then show ?case by auto
next
  case (3 i c r' rs)
  then show ?case by (auto simp add: max_def)
qed

lemma stored_value_fits:
  "\<forall>v \<in> set [q1, q2, q3, q4, q5, s]. fits_int64 v \<Longrightarrow>
   map stored_value (bind_values_of d tm q1 q2 q3 q4 q5 s) =
     [TextVal d, TextVal tm, IntVal q1, IntVal q2, IntVal q3, IntVal q4, IntVal q5, IntVal s]"
  by (simp add: bind_values_of_def)

lemma manager_after_delete:
  "DataManager_init (Some database_after_delete) =
     \<lparr>is_open = True, db_tables = database_after_delete, storage_fault = None,
      prepared = create_altman_sql, bound = [], last_error = NoError,
      dm_log = [(INFO, [Txt ''DB INITIALIZING''], [])]\<rparr>"
  by (simp add: DataManager_init_opened)
     (simp add: create_table_if_not_exists_def database_after_delete_def names_differ)

lemma create_table_if_not_exists_twice:
  "create_table_if_not_exists n cols (create_table_if_not_exists n cols db) =
     create_table_if_not_exists n cols db"
  by (simp add: create_table_if_not_exists_def Let_def split: option.splits)

lemma setup_altman_table_open:
  "is_open dm \<Longrightarrow> storage_fault dm = None \<Longrightarrow>
   setup_altman_table dm =
     dm\<lparr>prepared := create_altman_sql, bound := [],
        db_tables := create_table_if_not_exists altman_table_name altman_columns (db_tables dm),
        last_error := NoError\<rparr>"
  by (simp add: setup_altman_table_def query_exec_sql_def sqlite_run_create_open)

lemma setup_altman_table_failed:
  "\<not> (is_open dm \<and> storage_fault dm = None) \<Longrightarrow>
   length (dm_log (setup_altman_table dm)) = Suc (length (dm_log dm))
   \<and> is_open (setup_altman_table dm) = is_open dm
   \<and> storage_fault (setup_altman_table dm) = storage_fault dm"
  by (auto simp add: setup_altman_table_def query_exec_sql_def sqlite_run_def logger_error_def
      split: option.splits)

lemma setup_altman_table_twice_quiet:
  assumes "dm_log (setup_altman_table (setup_altman_table dm)) = dm_log dm"
  shows "is_open dm \<and> storage_fault dm = None"
proof (rule ccontr)
  assume bad: "\<not> (is_open dm \<and> storage_fault dm = None)"
  from setup_altman_table_failed [OF bad]
  have one: "length (dm_log (setup_altman_table dm)) = Suc (length (dm_log dm))"
    and bad': "\<not> (is_open (setup_altman_table dm) \<and> storage_fault (setup_altman_table dm) = None)"
    using bad by simp_all
  from setup_altman_table_failed [OF bad'] one
  have "length (dm_log (setup_altman_table (setup_altman_table dm))) = Suc (Suc (length (dm_log dm)))"
    by simp
  with assms show False by simp
qed

lemma initialize_database_result:
  "initialize_database db_path target fs =
     (None,
      case files fs target of
        Some _ \<Rightarrow> fs
      | None \<Rightarrow>
          (case files fs db_path of
             Some bytes \<Rightarrow>
               if target \<in> write_refused fs
               then fs\<lparr>fs_log := fs_log fs @
                      [(ERROR, [Txt ''Error: Unable to create database''],
                        [Exn (OSError ''Permission denied'')])]\<rparr>
               else
                 (case copy_breaks_after fs of
                    None \<Rightarrow> fs\<lparr>files := (files fs)(target \<mapsto> bytes)\<rparr>
                  | Some n \<Rightarrow>
                      fs\<lparr>files := (files fs)(target \<mapsto> take n bytes),
                         fs_log := fs_log fs @
                           [(ERROR, [Txt ''Error: Unable to create database''],
                             [Exn (OSError ''No space left on device'')])]\<rparr>)
           | None \<Rightarrow>
               if target \<in> write_refused fs
               then fs\<lparr>fs_log := fs_log fs @
                      [(ERROR, [Txt ''Error: Unable to create database''], [])]\<rparr>
               else fs\<lparr>files := (files fs)(target \<mapsto> [])\<rparr>))"
  by (simp add: initialize_database_def initialize_database_try_def os_path_exists_def
      shutil_copy_def qsqlite_open_def fs_logger_error_def split: option.splits)

lemma existing_target_kept:
  "files fs target \<noteq> None \<Longrightarrow> initialize_database db_path target fs = (None, fs)"
  by (auto simp add: initialize_database_def initialize_database_try_def os_path_exists_def)

lemma insert_try_raises:
  "fst (insert_try exec sql vs dm) = Some e \<Longrightarrow>
     e = ValueError (str_count sql CHR ''?'') (length vs)
     \<and> snd (insert_try exec sql vs dm) = dm\<lparr>prepared := sql, bound := vs\<rparr>"
  by (simp add: insert_try_def prepare_then_bind Let_def split: if_splits prod.splits)

lemma insert_handled_returns: "fst (insert_handled exec sql vs dm) = None"
  by (simp add: insert_handled_def split: prod.splits option.splits exn.splits)

lemma initialize_database_returns: "fst (initialize_database db_path target fs) = None"
  by (simp add: initialize_database_def split: prod.splits option.splits)

lemma failed_manager:
  "DataManager_init None =
     \<lparr>is_open = False, db_tables = Map.empty, storage_fault = None,
      prepared = create_altman_sql, bound = [],
      last_error = ConnectionNotOpen,
      dm_log = [(ERROR, [Txt ''Error: Unable to open database''], []),
                (INFO, [Txt ''DB INITIALIZING''], []),
                (ERROR, [Txt ''Error creating table: altman_refined_table''],
                 [Err ConnectionNotOpen])]\<rparr>"
  by (simp add: DataManager_init_def open_connection_def setup_tables_def setup_altman_table_def
      query_exec_sql_def sqlite_run_closed logger_info_def logger_error_def)

lemma sum_list_filter_nth:
  "sum_list (filter P xs) = (\<Sum>i \<in> {i. i < length xs \<and> P (xs ! i)}. (xs ! i :: int))"
proof -
  have "sum_list (filter P xs) = sum_list (map (\<lambda>x. if P x then x else 0) xs)"
    using sum_list_map_filter' [of "\<lambda>x. x" P xs] by simp
  also have "\<dots> = (\<Sum>i = 0..<length xs. if P (xs ! i) then xs ! i else 0)"
    by (simp add: sum_list_sum_nth)
  also have "\<dots> = (\<Sum>i \<in> {i. i < length xs \<and> P (xs ! i)}. xs ! i)"
    by (rule sum.mono_neutral_cong_right) auto
  finally show ?thesis .
qed

lemma summary_after_update:
  "altmans_summary (update_altmans_summary w) =
     (\<Sum>i \<in> {i. i < 5 \<and> slider_values w ! i > 0}. slider_values w ! i)"
proof -
  have len: "length (slider_values w) = 5"
    by (simp add: slider_values_def)
  have "altmans_summary (update_altmans_summary w) =
          sum_list (filter (\<lambda>v. v > 0) (slider_values w))"
    by (simp add: update_altmans_summary_def)
  also have "\<dots> = (\<Sum>i \<in> {i. i < length (slider_values w) \<and> slider_values w ! i > 0}.
                       slider_values w ! i)"
    by (rule sum_list_filter_nth)
  finally show ?thesis by (simp only: len)
qed

lemma setRange_0_4: "0 \<le> setRange 0 4 v \<and> setRange 0 4 v \<le> 4"
  by (simp add: setRange_def)

lemma sliders_in_range_after_commit:
  "\<forall>v \<in> set (slider_values (altman_table_commit w)). 0 \<le> v \<and> v \<le> 4"
  by (simp add: slider_values_def altman_table_commit_def setRange_0_4)

lemma sum_of_positive_nonnegative:
  "\<forall>v \<in> set xs. 0 \<le> v \<Longrightarrow> sum_list (filter (\<lambda>v. v > 0) xs) = sum_list (xs :: int list)"
  by (induction xs) auto

section \<open>The summary of a submission\<close>

text \<open>
  C1. \<^verbatim>\<open>update_altmans_summary\<close> is the slot of every slider's \<^verbatim>\<open>valueChanged\<close>, so it
  has run when a submission is committed after a slider has changed. A commit in that
  state hands the writer, as the summary, the sum of exactly those of the five answers it
  hands over that are strictly greater than 0. Committed through a fresh data manager,
  the answers (0, 2, 0, 3, 0) are stored with the summary 5 and the answers
  (0, 0, 0, 0, 0) with the summary 0.
\<close>

theorem committed_summary_sum_of_positive:
  "bound (db_manager (actionCommit_triggered (update_altmans_summary w))) =
     [TextVal (altman_date w), TextVal (altman_time w),
      IntVal (altman_question w), IntVal (altman_question_2 w), IntVal (altman_question_3 w),
      IntVal (altman_question_4 w), IntVal (altman_question_5 w),
      IntVal (\<Sum>i \<in> {i. i < 5 \<and> slider_values w ! i > 0}. slider_values w ! i)]
   \<and> map snd (tbl_rows (the (db_tables (db_manager (actionCommit_triggered
        (update_altmans_summary (window_with 0 2 0 3 0)))) altman_table_name))) =
       [[IntVal 1, TextVal ''2024-01-01'', TextVal ''10:00'',
         IntVal 0, IntVal 2, IntVal 0, IntVal 3, IntVal 0, IntVal 5]]
   \<and> map snd (tbl_rows (the (db_tables (db_manager (actionCommit_triggered
        (update_altmans_summary (window_with 0 0 0 0 0)))) altman_table_name))) =
       [[IntVal 1, TextVal ''2024-01-01'', TextVal ''10:00'',
         IntVal 0, IntVal 0, IntVal 0, IntVal 0, IntVal 0, IntVal 0]]"
proof -
  have sliders: "slider_values (update_altmans_summary w) = slider_values w"
    by (simp add: update_altmans_summary_def slider_values_def)
  have general: "bound (db_manager (actionCommit_triggered (update_altmans_summary w))) =
     [TextVal (altman_date w), TextVal (altman_time w),
      IntVal (altman_question w), IntVal (altman_question_2 w), IntVal (altman_question_3 w),
      IntVal (altman_question_4 w), IntVal (altman_question_5 w),
      IntVal (\<Sum>i \<in> {i. i < 5 \<and> slider_values w ! i > 0}. slider_values w ! i)]"
    by (simp add: actionCommit_triggered_def add_altmans_data_def insert_bound bind_values_of_def
        summary_after_update)
       (simp add: update_altmans_summary_def)
  have five: "map snd (tbl_rows (the (db_tables (db_manager (actionCommit_triggered
        (update_altmans_summary (window_with 0 2 0 3 0)))) altman_table_name))) =
       [[IntVal 1, TextVal ''2024-01-01'', TextVal ''10:00'',
         IntVal 0, IntVal 2, IntVal 0, IntVal 3, IntVal 0, IntVal 5]]"
    by (simp add: actionCommit_triggered_def add_altmans_data_def update_altmans_summary_def
        slider_values_def window_with_def first_insert names_differ bind_values_of_def
        fits_int64_def)
  have zero: "map snd (tbl_rows (the (db_tables (db_manager (actionCommit_triggered
        (update_altmans_summary (window_with 0 0 0 0 0)))) altman_table_name))) =
       [[IntVal 1, TextVal ''2024-01-01'', TextVal ''10:00'',
         IntVal 0, IntVal 0, IntVal 0, IntVal 0, IntVal 0, IntVal 0]]"
    by (simp add: actionCommit_triggered_def add_altmans_data_def update_altmans_summary_def
        slider_values_def window_with_def first_insert names_differ bind_values_of_def
        fits_int64_def)
  from general five zero show ?thesis by simp
qed

text \<open>
  C10. When the five slider values are all non-negative, the sum over the values greater
  than 0 is the plain sum of the five values; this is the case for the values the sliders
  hold once \<^verbatim>\<open>altman_table_commit\<close> has given them the range 0 to 4.
\<close>

theorem zero_filter_no_effect_on_nonnegative:
  assumes "\<forall>v \<in> set (slider_values w). 0 \<le> v"
  shows "altmans_summary (update_altmans_summary w) =
           altman_question w + altman_question_2 w + altman_question_3 w
             + altman_question_4 w + altman_question_5 w
       \<and> altmans_summary (update_altmans_summary (altman_table_commit w')) =
           sum_list (slider_values (altman_table_commit w'))"
proof -
  have "altmans_summary (update_altmans_summary w) = sum_list (slider_values w)"
    using assms by (simp add: update_altmans_summary_def sum_of_positive_nonnegative)
  then have first: "altmans_summary (update_altmans_summary w) =
           altman_question w + altman_question_2 w + altman_question_3 w
             + altman_question_4 w + altman_question_5 w"
    by (simp add: slider_values_def)
  have "\<forall>v \<in> set (slider_values (altman_table_commit w')). 0 \<le> v"
    using sliders_in_range_after_commit [of w'] by blast
  then have "altmans_summary (update_altmans_summary (altman_table_commit w')) =
           sum_list (slider_values (altman_table_commit w'))"
    by (simp add: update_altmans_summary_def sum_of_positive_nonnegative)
  with first show ?thesis by simp
qed

text \<open>The answers (1, 2, 0, 3, 4) are non-negative and their summary is 10.\<close>

theorem zero_filter_no_effect_witness:
  "slider_values (window_with 1 2 0 3 4) = [1, 2, 0, 3, 4]
   \<and> altmans_summary (update_altmans_summary (window_with 1 2 0 3 4)) = 10"
proof -
  have vals: "slider_values (window_with 1 2 0 3 4) = [1, 2, 0, 3, 4]"
    by (simp add: slider_values_def window_with_def)
  then have h: "\<forall>v \<in> set (slider_values (window_with 1 2 0 3 4)). 0 \<le> v"
    by simp
  from zero_filter_no_effect_on_nonnegative [OF h] vals show ?thesis
    by (simp add: window_with_def)
qed

section \<open>Inserting a submission\<close>

text \<open>
  C2 (as amended). When \<^verbatim>\<open>insert_into_altman_table\<close> logs no error, on a table with the
  declared columns and with integers that fit SQLite's 64-bit integers, it has returned
  normally and appended exactly one row: the cells after the id are the supplied values,
  every existing row is as before, and so is every table but this one and SQLite's
  \<^verbatim>\<open>sqlite_sequence\<close>. The id is one more than the larger of the largest id ever handed
  out in the table (\<open>sq\<close>, its value in \<^verbatim>\<open>sqlite_sequence\<close>, which then becomes the new
  id) and the largest id in the table; it is greater than every id in the table. That is
  the previous maximum id plus one when no higher id has been handed out before, and 1
  when the table never held a row.
\<close>

theorem insert_appends_one_row:
  assumes "db_tables dm altman_table_name = Some t"
    and "tbl_columns t = altman_columns"
    and "dm_log (snd (insert_into_altman_table dm d tm q1 q2 q3 q4 q5 s)) = dm_log dm"
    and "\<forall>v \<in> set [q1, q2, q3, q4, q5, s]. fits_int64 v"
    and "sequence_value altman_table_name (db_tables dm) = Some sq"
  shows "let rid = max sq (max_rowid (tbl_rows t)) + 1;
             res = insert_into_altman_table dm d tm q1 q2 q3 q4 q5 s
         in fst res = None
          \<and> db_tables (snd res) altman_table_name =
              Some (t\<lparr>tbl_rows := tbl_rows t @
                     [(rid, [IntVal rid, TextVal d, TextVal tm, IntVal q1, IntVal q2, IntVal q3,
                             IntVal q4, IntVal q5, IntVal s])]\<rparr>)
          \<and> (\<forall>n. n \<noteq> altman_table_name \<and> n \<noteq> sequence_table_name \<longrightarrow>
                 db_tables (snd res) n = db_tables dm n)
          \<and> sequence_value altman_table_name (db_tables (snd res)) = Some rid
          \<and> (\<forall>r \<in> set (tbl_rows t). fst r < rid)
          \<and> (sq \<le> max_rowid (tbl_rows t) \<longrightarrow> rid = max_rowid (tbl_rows t) + 1)
          \<and> (tbl_rows t = [] \<and> sq = 0 \<longrightarrow> rid = 1)"
proof -
  note sq = assms(5)
  from insert_declared_quiet [OF assms(1,2,3)] sq
  have res: "insert_into_altman_table dm d tm q1 q2 q3 q4 q5 s =
               (None, dm\<lparr>db_tables :=
                            store_sequence altman_table_name (max sq (max_rowid (tbl_rows t)) + 1)
                              ((db_tables dm)(altman_table_name \<mapsto>
                                 t\<lparr>tbl_rows := tbl_rows t @
                                     [(max sq (max_rowid (tbl_rows t)) + 1,
                                       IntVal (max sq (max_rowid (tbl_rows t)) + 1)
                                         # map stored_value
                                             (bind_values_of d tm q1 q2 q3 q4 q5 s))]\<rparr>)),
                          prepared := insert_altman_sql,
                          bound := bind_values_of d tm q1 q2 q3 q4 q5 s,
                          last_error := NoError\<rparr>)"
    by auto
  let ?rid = "max sq (max_rowid (tbl_rows t)) + 1"
  let ?t' = "t\<lparr>tbl_rows := tbl_rows t @
       [(?rid, IntVal ?rid # map stored_value (bind_values_of d tm q1 q2 q3 q4 q5 s))]\<rparr>"
  let ?db' = "store_sequence altman_table_name ?rid ((db_tables dm)(altman_table_name \<mapsto> ?t'))"
  have cells: "map stored_value (bind_values_of d tm q1 q2 q3 q4 q5 s) =
     [TextVal d, TextVal tm, IntVal q1, IntVal q2, IntVal q3, IntVal q4, IntVal q5, IntVal s]"
    using assms(4) by (rule stored_value_fits)
  have here: "?db' altman_table_name = Some ?t'"
    by (simp add: store_sequence_elsewhere names_differ)
  have others: "\<forall>n. n \<noteq> altman_table_name \<and> n \<noteq> sequence_table_name \<longrightarrow>
      ?db' n = db_tables dm n"
    by (simp add: store_sequence_elsewhere)
  have "((db_tables dm)(altman_table_name \<mapsto> ?t')) sequence_table_name \<noteq> None"
    using sequence_value_table [OF sq] by (simp add: names_differ [symmetric])
  then have seq': "sequence_value altman_table_name ?db' = Some ?rid"
    by (rule sequence_value_stored)
  have above: "\<forall>r \<in> set (tbl_rows t). fst r < ?rid"
  proof
    fix r assume "r \<in> set (tbl_rows t)"
    from max_rowid_bound [OF this] show "fst r < ?rid" by simp
  qed
  from res sq here others seq' above show ?thesis
    by (simp add: Let_def cells)
qed

text \<open>
  The submission of the specification's example through a fresh data manager: nothing
  is logged and the table then holds that one row, with id 1.
\<close>

theorem insert_appends_one_row_witness:
  "dm_log (snd (insert_into_altman_table (DataManager_init (Some Map.empty))
        ''2024-01-01'' ''10:00'' 1 2 0 3 4 10)) = dm_log (DataManager_init (Some Map.empty))
   \<and> db_tables (snd (insert_into_altman_table (DataManager_init (Some Map.empty))
        ''2024-01-01'' ''10:00'' 1 2 0 3 4 10)) altman_table_name =
      Some \<lparr>tbl_columns = altman_columns,
            tbl_rows = [(1, [IntVal 1, TextVal ''2024-01-01'', TextVal ''10:00'',
                             IntVal 1, IntVal 2, IntVal 0, IntVal 3, IntVal 4, IntVal 10])]\<rparr>"
proof -
  let ?dm = "DataManager_init (Some Map.empty)"
  let ?t = "\<lparr>tbl_columns = altman_columns, tbl_rows = []\<rparr>"
  have h1: "db_tables ?dm altman_table_name = Some ?t"
    by (simp add: fresh_manager names_differ)
  have h2: "tbl_columns ?t = altman_columns"
    by simp
  have h3: "dm_log (snd (insert_into_altman_table ?dm ''2024-01-01'' ''10:00'' 1 2 0 3 4 10)) =
      dm_log ?dm"
    by (simp add: first_insert) (simp add: fresh_manager)
  have h4: "\<forall>v \<in> set [1, 2, 0, 3, 4, 10]. fits_int64 v"
    by (simp add: fits_int64_def)
  have seq: "sequence_value altman_table_name (db_tables ?dm) = Some 0"
    by (simp add: fresh_manager sequence_value_def)
  from insert_appends_one_row [OF h1 h2 h3 h4 seq] h3 show ?thesis
    by (simp add: Let_def)
qed

text \<open>
  C2 as stated fails: after three submissions and the deletion of the third, the rows
  have the ids 1 and 2, so the previous maximum plus one is 3, and the next submission
  gets the id 4.
\<close>

theorem insert_id_after_delete_counterexample:
  "map fst (tbl_rows (the (db_tables (snd (insert_into_altman_table
      (DataManager_init (Some database_after_delete))
      ''2024-01-03'' ''10:00'' 1 2 0 3 4 10)) altman_table_name))) = [1, 2, 4]
   \<and> map fst (tbl_rows (the (database_after_delete altman_table_name))) = [1, 2]"
proof -
  let ?dm = "DataManager_init (Some database_after_delete)"
  let ?vs = "bind_values_of ''2024-01-03'' ''10:00'' 1 2 0 3 4 10"
  let ?t = "the (database_after_delete altman_table_name)"
  have tab: "database_after_delete altman_table_name = Some ?t"
    by (simp add: database_after_delete_def names_differ)
  have cols: "tbl_columns ?t = altman_columns"
    by (simp add: database_after_delete_def names_differ)
  have rows: "map fst (tbl_rows ?t) = [1, 2]"
    by (simp add: database_after_delete_def names_differ)
  have top: "max_rowid (tbl_rows ?t) = 2"
    by (simp add: database_after_delete_def names_differ)
  have seq: "sequence_value altman_table_name database_after_delete = Some 3"
    by (simp add: sequence_value_def database_after_delete_def)
  have row: "insert_row altman_table_name insert_altman_names ?vs database_after_delete =
      Inr (store_sequence altman_table_name 4
             (database_after_delete(altman_table_name \<mapsto>
                ?t\<lparr>tbl_rows := tbl_rows ?t @ [(4, IntVal 4 # map stored_value ?vs)]\<rparr>)))"
    using insert_row_declared [where db = database_after_delete and t = ?t, OF tab cols,
        of "''2024-01-03''" "''10:00''" 1 2 0 3 4 10]
    by (simp add: seq top max_int64_def)
  have opened: "is_open (?dm\<lparr>prepared := insert_altman_sql, bound := ?vs\<rparr>)"
    and sound: "storage_fault (?dm\<lparr>prepared := insert_altman_sql, bound := ?vs\<rparr>) = None"
    by (simp_all add: manager_after_delete)
  have "db_tables (snd (insert_into_altman_table ?dm ''2024-01-03'' ''10:00'' 1 2 0 3 4 10)) =
      store_sequence altman_table_name 4
             (database_after_delete(altman_table_name \<mapsto>
                ?t\<lparr>tbl_rows := tbl_rows ?t @ [(4, IntVal 4 # map stored_value ?vs)]\<rparr>))"
    using row
    by (simp add: insert_method query_exec_def sqlite_run_insert_open [OF opened sound])
       (simp add: manager_after_delete)
  then have "db_tables (snd (insert_into_altman_table ?dm ''2024-01-03'' ''10:00'' 1 2 0 3 4 10))
      altman_table_name = Some (?t\<lparr>tbl_rows := tbl_rows ?t @ [(4, IntVal 4 # map stored_value ?vs)]\<rparr>)"
    by (simp add: store_sequence_elsewhere names_differ)
  with rows show ?thesis by simp
qed

text \<open>
  C8 (as amended). The insert returns normally whatever the answers are. For integers
  that fit SQLite's 64-bit integers (9, for one), whether it logs an error does not
  depend on them: it does with the given answers exactly when it does with zeros, so no
  range is checked; and when it logs no error, on a table with the declared columns, the
  table has one row more and the cells of the new row after its id are the supplied
  values as they are.
\<close>

theorem out_of_range_stored_verbatim:
  "fst (insert_into_altman_table dm d tm q1 q2 q3 q4 q5 s) = None
   \<and> (fits_int64 q1 \<and> fits_int64 q2 \<and> fits_int64 q3 \<and> fits_int64 q4 \<and> fits_int64 q5
        \<and> fits_int64 s \<longrightarrow>
      (dm_log (snd (insert_into_altman_table dm d tm q1 q2 q3 q4 q5 s)) = dm_log dm) =
      (dm_log (snd (insert_into_altman_table dm d tm 0 0 0 0 0 0)) = dm_log dm))
   \<and> (db_tables dm altman_table_name = Some t \<and> tbl_columns t = altman_columns
        \<and> dm_log (snd (insert_into_altman_table dm d tm q1 q2 q3 q4 q5 s)) = dm_log dm
        \<and> fits_int64 q1 \<and> fits_int64 q2 \<and> fits_int64 q3 \<and> fits_int64 q4 \<and> fits_int64 q5
        \<and> fits_int64 s \<longrightarrow>
      (\<exists>t'. db_tables (snd (insert_into_altman_table dm d tm q1 q2 q3 q4 q5 s))
                altman_table_name = Some t'
            \<and> length (tbl_rows t') = Suc (length (tbl_rows t))
            \<and> tl (snd (last (tbl_rows t'))) =
                [TextVal d, TextVal tm, IntVal q1, IntVal q2, IntVal q3, IntVal q4, IntVal q5,
                 IntVal s]))"
proof -
  have returns: "fst (insert_into_altman_table dm d tm q1 q2 q3 q4 q5 s) = None"
    by (simp add: insert_into_altman_table_def insert_handled_returns)
  have same: "(dm_log (snd (insert_into_altman_table dm d tm q1 q2 q3 q4 q5 s)) = dm_log dm) =
      (dm_log (snd (insert_into_altman_table dm d tm 0 0 0 0 0 0)) = dm_log dm)"
    by (simp only: insert_quiet_iff) (rule insert_acceptance_ignores_values)
  have stored: "\<exists>t'. db_tables (snd (insert_into_altman_table dm d tm q1 q2 q3 q4 q5 s))
                altman_table_name = Some t'
            \<and> length (tbl_rows t') = Suc (length (tbl_rows t))
            \<and> tl (snd (last (tbl_rows t'))) =
                [TextVal d, TextVal tm, IntVal q1, IntVal q2, IntVal q3, IntVal q4, IntVal q5,
                 IntVal s]"
    if tab: "db_tables dm altman_table_name = Some t"
      and cols: "tbl_columns t = altman_columns"
      and quiet: "dm_log (snd (insert_into_altman_table dm d tm q1 q2 q3 q4 q5 s)) = dm_log dm"
      and fits: "\<forall>v \<in> set [q1, q2, q3, q4, q5, s]. fits_int64 v"
  proof -
    from insert_declared_quiet [OF tab cols quiet]
    obtain sq where res: "insert_into_altman_table dm d tm q1 q2 q3 q4 q5 s =
               (None, dm\<lparr>db_tables :=
                            store_sequence altman_table_name (max sq (max_rowid (tbl_rows t)) + 1)
                              ((db_tables dm)(altman_table_name \<mapsto>
                                 t\<lparr>tbl_rows := tbl_rows t @
                                     [(max sq (max_rowid (tbl_rows t)) + 1,
                                       IntVal (max sq (max_rowid (tbl_rows t)) + 1)
                                         # map stored_value
                                             (bind_values_of d tm q1 q2 q3 q4 q5 s))]\<rparr>)),
                          prepared := insert_altman_sql,
                          bound := bind_values_of d tm q1 q2 q3 q4 q5 s,
                          last_error := NoError\<rparr>)"
      by blast
    show ?thesis
      by (simp add: res store_sequence_elsewhere names_differ stored_value_fits [OF fits])
  qed
  from returns same stored show ?thesis
    by simp
qed

text \<open>The answers 9, -3 and 100 are stored as they are.\<close>

theorem out_of_range_stored_verbatim_witness:
  "dm_log (snd (insert_into_altman_table (DataManager_init (Some Map.empty))
        ''2024-01-01'' ''10:00'' 9 (- 3) 0 4 100 110)) = dm_log (DataManager_init (Some Map.empty))
   \<and> fits_int64 9 \<and> fits_int64 (- 3) \<and> fits_int64 100
   \<and> fst (insert_into_altman_table (DataManager_init (Some Map.empty))
        ''2024-01-01'' ''10:00'' 9 (- 3) 0 4 100 110) = None
   \<and> map snd (tbl_rows (the (db_tables (snd (insert_into_altman_table
        (DataManager_init (Some Map.empty)) ''2024-01-01'' ''10:00'' 9 (- 3) 0 4 100 110))
        altman_table_name))) =
      [[IntVal 1, TextVal ''2024-01-01'', TextVal ''10:00'',
        IntVal 9, IntVal (- 3), IntVal 0, IntVal 4, IntVal 100, IntVal 110]]"
proof -
  let ?dm = "DataManager_init (Some Map.empty)"
  have quiet: "dm_log (snd (insert_into_altman_table ?dm ''2024-01-01'' ''10:00'' 9 (- 3) 0 4 100 110))
      = dm_log ?dm"
    by (simp add: first_insert) (simp add: fresh_manager)
  have fits: "fits_int64 9 \<and> fits_int64 (- 3) \<and> fits_int64 100"
    by (simp add: fits_int64_def)
  have row: "map snd (tbl_rows (the (db_tables (snd (insert_into_altman_table ?dm
        ''2024-01-01'' ''10:00'' 9 (- 3) 0 4 100 110)) altman_table_name))) =
      [[IntVal 1, TextVal ''2024-01-01'', TextVal ''10:00'',
        IntVal 9, IntVal (- 3), IntVal 0, IntVal 4, IntVal 100, IntVal 110]]"
    by (simp add: first_insert names_differ bind_values_of_def fits_int64_def)
  from out_of_range_stored_verbatim [of ?dm "''2024-01-01''" "''10:00''" 9 "- 3" 0 4 100 110]
  have "fst (insert_into_altman_table ?dm ''2024-01-01'' ''10:00'' 9 (- 3) 0 4 100 110) = None"
    by blast
  with quiet fits row show ?thesis by simp
qed

text \<open>
  C8 as stated fails: the answer 9223372036854775809 does not fit a 64-bit integer; the
  submission is stored, but the cell of that answer holds a floating-point value, not the
  integer.
\<close>

theorem beyond_int64_not_verbatim_counterexample:
  "map snd (tbl_rows (the (db_tables (snd (insert_into_altman_table
        (DataManager_init (Some Map.empty))
        ''2024-01-01'' ''10:00'' 9223372036854775809 2 0 3 4 9)) altman_table_name))) =
      [[IntVal 1, TextVal ''2024-01-01'', TextVal ''10:00'',
        RealVal 9223372036854775809, IntVal 2, IntVal 0, IntVal 3, IntVal 4, IntVal 9]]
   \<and> RealVal 9223372036854775809 \<noteq> IntVal 9223372036854775809"
  by (simp add: first_insert names_differ bind_values_of_def fits_int64_def)

section \<open>The parameter-count guard\<close>

text \<open>
  C3. In the body of \<^verbatim>\<open>insert_into_altman_table\<close>, taken for any statement text, any
  bind list and any \<^verbatim>\<open>exec()\<close>: when the number of placeholders differs from the number
  of bound values, the call returns normally, the result does not depend on
  \<^verbatim>\<open>exec()\<close> (it is not run), the tables and the connection are as before, and the log
  has one more entry, the \<^verbatim>\<open>ValueError\<close> with the two counts.
\<close>

theorem mismatch_never_executes:
  assumes "str_count sql CHR ''?'' \<noteq> length bind_values"
  shows "insert_handled exec sql bind_values dm =
           (None, logger_error
              [Txt ''ValueError altman_refined_table: '',
               Exn (ValueError (str_count sql CHR ''?'') (length bind_values))] []
              (dm\<lparr>prepared := sql, bound := bind_values\<rparr>))
         \<and> db_tables (snd (insert_handled exec sql bind_values dm)) = db_tables dm
         \<and> is_open (snd (insert_handled exec sql bind_values dm)) = is_open dm"
  using assms by (simp add: insert_handled_mismatch logger_error_def)

text \<open>
  A statement with two placeholders and one bound value, with an \<^verbatim>\<open>exec()\<close> that would
  drop every table: the tables are kept and the \<^verbatim>\<open>ValueError\<close> is logged.
\<close>

theorem mismatch_never_executes_witness:
  "str_count ''INSERT INTO altman_refined_table(altman_date) VALUES (?, ?)'' CHR ''?'' = 2
   \<and> insert_handled (\<lambda>dm. (True, dm\<lparr>db_tables := Map.empty\<rparr>))
        ''INSERT INTO altman_refined_table(altman_date) VALUES (?, ?)''
        [TextVal ''2024-01-01''] (DataManager_init (Some Map.empty)) =
      (None, (DataManager_init (Some Map.empty))
         \<lparr>prepared := ''INSERT INTO altman_refined_table(altman_date) VALUES (?, ?)'',
          bound := [TextVal ''2024-01-01''],
          dm_log := [(INFO, [Txt ''DB INITIALIZING''], []),
                     (ERROR, [Txt ''ValueError altman_refined_table: '', Exn (ValueError 2 1)], [])]\<rparr>)"
proof -
  have c: "str_count ''INSERT INTO altman_refined_table(altman_date) VALUES (?, ?)'' CHR ''?'' = 2"
    by (simp add: str_count_def)
  then have h: "str_count ''INSERT INTO altman_refined_table(altman_date) VALUES (?, ?)'' CHR ''?''
      \<noteq> length [TextVal ''2024-01-01'']"
    by simp
  from mismatch_never_executes [OF h, of "\<lambda>dm. (True, dm\<lparr>db_tables := Map.empty\<rparr>)"
      "DataManager_init (Some Map.empty)"] c
  show ?thesis
    by (simp add: logger_error_def fresh_manager)
qed

text \<open>
  C9. The statement text of \<^verbatim>\<open>insert_into_altman_table\<close> has 8 placeholders and its bind
  list has 8 values, whatever the arguments are: the \<^verbatim>\<open>try\<close> block raises nothing and
  the method is the branch that runs \<^verbatim>\<open>exec()\<close> on the prepared statement.
\<close>

theorem guard_unreachable:
  "str_count insert_altman_sql CHR ''?'' = 8
   \<and> length (bind_values_of d tm q1 q2 q3 q4 q5 s) = 8
   \<and> fst (insert_try query_exec insert_altman_sql (bind_values_of d tm q1 q2 q3 q4 q5 s) dm) = None
   \<and> insert_into_altman_table dm d tm q1 q2 q3 q4 q5 s =
       (case query_exec (dm\<lparr>prepared := insert_altman_sql,
                              bound := bind_values_of d tm q1 q2 q3 q4 q5 s\<rparr>) of
          (ok, dm3) \<Rightarrow>
            (None, if ok then dm3
                   else logger_error
                          [Txt ''Error inserting data: altman_refined_table - '',
                           Err (last_error dm3)] [] dm3))"
proof -
  let ?vs = "bind_values_of d tm q1 q2 q3 q4 q5 s"
  have cnt: "str_count insert_altman_sql CHR ''?'' = length ?vs"
    by (simp add: placeholders_insert_altman_sql length_bind_values_of)
  have "fst (insert_try query_exec insert_altman_sql ?vs dm) = None"
    by (simp add: insert_try_def cnt Let_def split: prod.splits)
  moreover have "insert_into_altman_table dm d tm q1 q2 q3 q4 q5 s =
       (case query_exec (dm\<lparr>prepared := insert_altman_sql, bound := ?vs\<rparr>) of
          (ok, dm3) \<Rightarrow>
            (None, if ok then dm3
                   else logger_error
                          [Txt ''Error inserting data: altman_refined_table - '',
                           Err (last_error dm3)] [] dm3))"
    unfolding insert_into_altman_table_def
    by (simp add: insert_handled_matching [OF cnt] split: prod.splits)
  ultimately show ?thesis
    by (simp add: placeholders_insert_altman_sql length_bind_values_of)
qed

section \<open>Bootstrap of the database file\<close>

text \<open>
  C4 (as amended). \<^verbatim>\<open>initialize_database\<close> returns normally. A target that exists is
  left as it is, with everything else, so a second call in a row changes nothing. When
  the target is missing and the call logs no failure, the target exists afterwards and
  holds the bytes of the template when the template exists, and no bytes otherwise.
\<close>

theorem bootstrap_contents:
  "fst (initialize_database db_path target fs) = None
   \<and> (files fs target \<noteq> None \<longrightarrow> snd (initialize_database db_path target fs) = fs)
   \<and> (files fs target = None
        \<and> fs_log (snd (initialize_database db_path target fs)) = fs_log fs \<longrightarrow>
          files (snd (initialize_database db_path target fs)) target =
            Some (case files fs db_path of Some bytes \<Rightarrow> bytes | None \<Rightarrow> []))
   \<and> (files (snd (initialize_database db_path target fs)) target \<noteq> None \<longrightarrow>
          initialize_database db_path target (snd (initialize_database db_path target fs)) =
            (None, snd (initialize_database db_path target fs)))"
proof -
  have quiet: "files (snd (initialize_database db_path target fs)) target =
            Some (case files fs db_path of Some bytes \<Rightarrow> bytes | None \<Rightarrow> [])"
    if "files fs target = None"
      and "fs_log (snd (initialize_database db_path target fs)) = fs_log fs"
    using that
    by (cases "files fs db_path"; cases "copy_breaks_after fs")
       (simp_all add: initialize_database_result split: if_splits)
  from initialize_database_returns [of db_path target fs]
    existing_target_kept [of fs target db_path]
    existing_target_kept [of "snd (initialize_database db_path target fs)" target db_path]
    quiet
  show ?thesis by simp
qed

text \<open>
  With a template and a target that can be created the call logs nothing, the target
  gets the template's bytes and a second call changes nothing; with neither file the
  target is created empty.
\<close>

theorem bootstrap_contents_witness:
  "fs_log (snd (initialize_database ''./DB_NAME'' ''~/DB_NAME'' template_only)) =
     fs_log template_only
   \<and> files (snd (initialize_database ''./DB_NAME'' ''~/DB_NAME'' template_only)) ''~/DB_NAME''
     = Some [83, 81, 76]
   \<and> fs_log (snd (initialize_database ''./DB_NAME'' ''~/DB_NAME'' empty_disk)) =
     fs_log empty_disk
   \<and> files (snd (initialize_database ''./DB_NAME'' ''~/DB_NAME'' empty_disk)) ''~/DB_NAME''
     = Some []
   \<and> initialize_database ''./DB_NAME'' ''~/DB_NAME''
        (snd (initialize_database ''./DB_NAME'' ''~/DB_NAME'' template_only)) =
      (None, snd (initialize_database ''./DB_NAME'' ''~/DB_NAME'' template_only))"
proof -
  have a: "files template_only ''~/DB_NAME'' = None"
    and la: "fs_log (snd (initialize_database ''./DB_NAME'' ''~/DB_NAME'' template_only)) =
      fs_log template_only"
    and ta: "files template_only ''./DB_NAME'' = Some [83, 81, 76]"
    by (simp_all add: initialize_database_result template_only_def)
  have b: "files empty_disk ''~/DB_NAME'' = None"
    and lb: "fs_log (snd (initialize_database ''./DB_NAME'' ''~/DB_NAME'' empty_disk)) =
      fs_log empty_disk"
    and tb: "files empty_disk ''./DB_NAME'' = None"
    by (simp_all add: initialize_database_result empty_disk_def)
  from bootstrap_contents [of "''./DB_NAME''" "''~/DB_NAME''" template_only]
       bootstrap_contents [of "''./DB_NAME''" "''~/DB_NAME''" empty_disk]
       a la ta b lb tb
  show ?thesis by simp
qed

text \<open>
  C4 as stated fails: the template exists, the target does not and can not be created;
  after the call the target still does not exist.
\<close>

theorem bootstrap_target_missing_counterexample:
  "files read_only_home ''./DB_NAME'' = Some [83, 81, 76]
   \<and> files read_only_home ''~/DB_NAME'' = None
   \<and> files (snd (initialize_database ''./DB_NAME'' ''~/DB_NAME'' read_only_home)) ''~/DB_NAME''
       = None"
  by (simp add: initialize_database_result read_only_home_def)

section \<open>The schema\<close>

text \<open>
  C5 (as amended). When two calls of \<^verbatim>\<open>setup_altman_table\<close> in a row log no error, the
  second has changed nothing. Afterwards \<^verbatim>\<open>altman_refined_table\<close> exists: as it was,
  columns and rows, when it existed before, and with the declared columns and no rows
  otherwise. SQLite's \<^verbatim>\<open>sqlite_sequence\<close> is as before when the table existed and exists
  (as it was, or new and empty) when the table was created; every other table is as
  before. A database that held no table before holds exactly these two.
\<close>

theorem schema_ensure_twice:
  assumes "dm_log (setup_altman_table (setup_altman_table dm)) = dm_log dm"
  shows "setup_altman_table (setup_altman_table dm) = setup_altman_table dm
       \<and> db_tables (setup_altman_table (setup_altman_table dm)) altman_table_name =
           Some (case db_tables dm altman_table_name of
                   Some t \<Rightarrow> t
                 | None \<Rightarrow> \<lparr>tbl_columns = altman_columns, tbl_rows = []\<rparr>)
       \<and> db_tables (setup_altman_table (setup_altman_table dm)) sequence_table_name =
           (case db_tables dm altman_table_name of
              Some t \<Rightarrow> db_tables dm sequence_table_name
            | None \<Rightarrow>
                Some (case db_tables dm sequence_table_name of
                        Some st \<Rightarrow> st
                      | None \<Rightarrow> \<lparr>tbl_columns = sequence_columns, tbl_rows = []\<rparr>))
       \<and> (\<forall>n. n \<noteq> altman_table_name \<and> n \<noteq> sequence_table_name \<longrightarrow>
             db_tables (setup_altman_table (setup_altman_table dm)) n = db_tables dm n)
       \<and> (db_tables dm = Map.empty \<longrightarrow>
             dom (db_tables (setup_altman_table (setup_altman_table dm))) =
               {altman_table_name, sequence_table_name})"
proof -
  let ?dm1 = "setup_altman_table dm"
  from setup_altman_table_twice_quiet [OF assms]
  have opened: "is_open dm" and sound: "storage_fault dm = None"
    by simp_all
  have one: "?dm1 = dm\<lparr>prepared := create_altman_sql, bound := [],
        db_tables := create_table_if_not_exists altman_table_name altman_columns (db_tables dm),
        last_error := NoError\<rparr>"
    using opened sound by (rule setup_altman_table_open)
  have opened1: "is_open ?dm1" and sound1: "storage_fault ?dm1 = None"
    using opened sound by (simp_all add: one)
  have two: "setup_altman_table ?dm1 = ?dm1"
    by (simp add: setup_altman_table_open [OF opened1 sound1])
       (simp add: one create_table_if_not_exists_twice)
  have tabs: "db_tables ?dm1 =
      create_table_if_not_exists altman_table_name altman_columns (db_tables dm)"
    by (simp add: one)
  have auto_key: "autoincrement_key \<in> snd ` set altman_columns"
    by (simp add: altman_columns_def)
  have here: "db_tables ?dm1 altman_table_name =
           Some (case db_tables dm altman_table_name of
                   Some t \<Rightarrow> t
                 | None \<Rightarrow> \<lparr>tbl_columns = altman_columns, tbl_rows = []\<rparr>)"
    by (simp add: tabs create_table_if_not_exists_def Let_def names_differ
        split: option.splits)
  have seq: "db_tables ?dm1 sequence_table_name =
           (case db_tables dm altman_table_name of
              Some t \<Rightarrow> db_tables dm sequence_table_name
            | None \<Rightarrow>
                Some (case db_tables dm sequence_table_name of
                        Some st \<Rightarrow> st
                      | None \<Rightarrow> \<lparr>tbl_columns = sequence_columns, tbl_rows = []\<rparr>))"
    by (simp add: tabs create_table_if_not_exists_def Let_def names_differ [symmetric] auto_key
        split: option.splits)
  have others: "\<forall>n. n \<noteq> altman_table_name \<and> n \<noteq> sequence_table_name \<longrightarrow>
      db_tables ?dm1 n = db_tables dm n"
    by (simp add: tabs create_table_if_not_exists_def Let_def split: option.splits)
  have only: "db_tables dm = Map.empty \<longrightarrow>
      dom (db_tables ?dm1) = {altman_table_name, sequence_table_name}"
    by (auto simp add: tabs create_table_if_not_exists_def Let_def auto_key
        names_differ [symmetric] split: option.splits if_splits)
  from here seq others only show ?thesis
    by (simp add: two)
qed

text \<open>
  On an empty database the two calls log nothing and leave the declared table, empty,
  beside \<^verbatim>\<open>sqlite_sequence\<close>.
\<close>

theorem schema_ensure_twice_witness:
  "dm_log (setup_altman_table (setup_altman_table (open_connection (Some Map.empty)))) =
     dm_log (open_connection (Some Map.empty))
   \<and> db_tables (setup_altman_table (setup_altman_table (open_connection (Some Map.empty)))) =
       [altman_table_name \<mapsto> \<lparr>tbl_columns = altman_columns, tbl_rows = []\<rparr>,
        sequence_table_name \<mapsto> \<lparr>tbl_columns = sequence_columns, tbl_rows = []\<rparr>]"
proof -
  let ?c = "open_connection (Some Map.empty)"
  have opened: "is_open ?c" and sound: "storage_fault ?c = None"
    by (simp_all add: open_connection_def)
  have once: "setup_altman_table ?c =
      ?c\<lparr>prepared := create_altman_sql, bound := [],
         db_tables := [altman_table_name \<mapsto> \<lparr>tbl_columns = altman_columns, tbl_rows = []\<rparr>,
                       sequence_table_name \<mapsto> \<lparr>tbl_columns = sequence_columns, tbl_rows = []\<rparr>],
         last_error := NoError\<rparr>"
    by (simp add: setup_altman_table_open [OF opened sound])
       (simp add: open_connection_def fresh_tables)
  have opened1: "is_open (setup_altman_table ?c)"
    and sound1: "storage_fault (setup_altman_table ?c) = None"
    using opened sound by (simp_all add: once)
  have quiet: "dm_log (setup_altman_table (setup_altman_table ?c)) = dm_log ?c"
    by (simp add: setup_altman_table_open [OF opened1 sound1])
       (simp add: once)
  from schema_ensure_twice [OF quiet]
  have idem: "setup_altman_table (setup_altman_table ?c) = setup_altman_table ?c"
    by blast
  have tabs: "db_tables (setup_altman_table (setup_altman_table ?c)) =
       [altman_table_name \<mapsto> \<lparr>tbl_columns = altman_columns, tbl_rows = []\<rparr>,
        sequence_table_name \<mapsto> \<lparr>tbl_columns = sequence_columns, tbl_rows = []\<rparr>]"
    by (simp only: idem) (simp add: once)
  from quiet tabs show ?thesis by simp
qed

text \<open>
  C5 as stated fails: a database that already holds a table of that name with fewer
  columns keeps it as it is through both calls, which log nothing, so its columns are
  not the declared ones.
\<close>

theorem schema_ensure_older_table_counterexample:
  "dm_log (setup_altman_table (setup_altman_table (open_connection (Some older_database)))) = []
   \<and> db_tables (setup_altman_table (setup_altman_table
        (open_connection (Some older_database)))) altman_table_name
       = Some older_table
   \<and> tbl_columns older_table \<noteq> altman_columns"
proof -
  let ?c = "open_connection (Some older_database)"
  have opened: "is_open ?c" and sound: "storage_fault ?c = None"
    by (simp_all add: open_connection_def)
  have kept: "create_table_if_not_exists altman_table_name altman_columns older_database =
      older_database"
    by (simp add: create_table_if_not_exists_def older_database_def names_differ)
  have once: "setup_altman_table ?c =
      ?c\<lparr>prepared := create_altman_sql, bound := [], last_error := NoError\<rparr>"
    by (simp add: setup_altman_table_open [OF opened sound])
       (simp add: open_connection_def kept)
  have opened1: "is_open (?c\<lparr>prepared := create_altman_sql, bound := [], last_error := NoError\<rparr>)"
    and sound1: "storage_fault (?c\<lparr>prepared := create_altman_sql, bound := [],
        last_error := NoError\<rparr>) = None"
    by (simp_all add: open_connection_def)
  have twice: "setup_altman_table (setup_altman_table ?c) =
      ?c\<lparr>prepared := create_altman_sql, bound := [], last_error := NoError\<rparr>"
    by (simp add: once setup_altman_table_open [OF opened1 sound1])
       (simp add: open_connection_def kept)
  have log: "dm_log (setup_altman_table (setup_altman_table ?c)) = []"
    by (simp add: twice) (simp add: open_connection_def)
  have tab: "db_tables (setup_altman_table (setup_altman_table ?c)) altman_table_name =
      Some older_table"
    by (simp add: twice) (simp add: open_connection_def older_database_def names_differ)
  have cols: "tbl_columns older_table \<noteq> altman_columns"
    by (simp add: older_table_def altman_columns_def)
  from log tab cols show ?thesis by simp
qed

section \<open>Failures are logged, not raised\<close>

text \<open>
  C6. \<^verbatim>\<open>initialize_database\<close> and \<^verbatim>\<open>insert_into_altman_table\<close> return normally on every
  input, and so does the body of the insert for any statement, bind list and
  \<^verbatim>\<open>exec()\<close>. Each failure adds one error entry to the log: an exception raised in the
  bootstrap, a database file that can not be opened for creation, a statement whose
  execution fails, and the \<^verbatim>\<open>ValueError\<close> of a parameter-count mismatch.
\<close>

theorem failures_logged_not_raised:
  "fst (initialize_database db_path target fs) = None
   \<and> fst (insert_into_altman_table dm d tm q1 q2 q3 q4 q5 s) = None
   \<and> fst (insert_handled exec sql vs dm) = None
   \<and> (\<forall>e. fst (initialize_database_try db_path target fs) = Some e \<longrightarrow>
         fs_log (snd (initialize_database db_path target fs)) =
           fs_log fs @ [(ERROR, [Txt ''Error: Unable to create database''], [Exn e])])
   \<and> (files fs target = None \<and> files fs db_path = None \<and> \<not> fst (qsqlite_open target fs) \<longrightarrow>
         fs_log (snd (initialize_database db_path target fs)) =
           fs_log fs @ [(ERROR, [Txt ''Error: Unable to create database''], [])])
   \<and> (\<not> fst (query_exec (dm\<lparr>prepared := insert_altman_sql,
                               bound := bind_values_of d tm q1 q2 q3 q4 q5 s\<rparr>)) \<longrightarrow>
         dm_log (snd (insert_into_altman_table dm d tm q1 q2 q3 q4 q5 s)) =
           dm_log dm @
             [(ERROR, [Txt ''Error inserting data: altman_refined_table - '',
                       Err (last_error (snd (query_exec (dm\<lparr>prepared := insert_altman_sql,
                               bound := bind_values_of d tm q1 q2 q3 q4 q5 s\<rparr>))))], [])])
   \<and> (\<forall>e. fst (insert_try exec sql vs dm) = Some e \<longrightarrow>
         dm_log (snd (insert_handled exec sql vs dm)) =
           dm_log dm @ [(ERROR, [Txt ''ValueError altman_refined_table: '', Exn e], [])])"
proof -
  let ?vs = "bind_values_of d tm q1 q2 q3 q4 q5 s"
  let ?dm2 = "dm\<lparr>prepared := insert_altman_sql, bound := ?vs\<rparr>"
  have cnt: "str_count insert_altman_sql CHR ''?'' = length ?vs"
    by (simp add: placeholders_insert_altman_sql length_bind_values_of)
  have boot_raise: "\<forall>e. fst (initialize_database_try db_path target fs) = Some e \<longrightarrow>
         fs_log (snd (initialize_database db_path target fs)) =
           fs_log fs @ [(ERROR, [Txt ''Error: Unable to create database''], [Exn e])]"
    by (auto simp add: initialize_database_def initialize_database_try_def shutil_copy_def
        fs_logger_error_def split: if_splits option.splits prod.splits)
  have boot_open: "files fs target = None \<and> files fs db_path = None
        \<and> \<not> fst (qsqlite_open target fs) \<longrightarrow>
         fs_log (snd (initialize_database db_path target fs)) =
           fs_log fs @ [(ERROR, [Txt ''Error: Unable to create database''], [])]"
    by (auto simp add: initialize_database_def initialize_database_try_def os_path_exists_def
        qsqlite_open_def fs_logger_error_def split: if_splits)
  have log2: "dm_log (snd (query_exec ?dm2)) = dm_log dm"
    by (simp add: query_exec_def sqlite_run_keeps_log)
  have exec_fail: "\<not> fst (query_exec ?dm2) \<longrightarrow>
         dm_log (snd (insert_into_altman_table dm d tm q1 q2 q3 q4 q5 s)) =
           dm_log dm @
             [(ERROR, [Txt ''Error inserting data: altman_refined_table - '',
                       Err (last_error (snd (query_exec ?dm2)))], [])]"
    unfolding insert_into_altman_table_def
    using log2
    by (cases "query_exec ?dm2")
       (simp add: insert_handled_matching [OF cnt] logger_error_def)
  have raised: "\<forall>e. fst (insert_try exec sql vs dm) = Some e \<longrightarrow>
         dm_log (snd (insert_handled exec sql vs dm)) =
           dm_log dm @ [(ERROR, [Txt ''ValueError altman_refined_table: '', Exn e], [])]"
  proof (intro allI impI)
    fix e assume r: "fst (insert_try exec sql vs dm) = Some e"
    from insert_try_raises [OF r]
    have e: "e = ValueError (str_count sql CHR ''?'') (length vs)"
      and st: "snd (insert_try exec sql vs dm) = dm\<lparr>prepared := sql, bound := vs\<rparr>"
      by simp_all
    have "insert_try exec sql vs dm = (Some e, dm\<lparr>prepared := sql, bound := vs\<rparr>)"
      using r st by (simp add: prod_eq_iff)
    then show "dm_log (snd (insert_handled exec sql vs dm)) =
           dm_log dm @ [(ERROR, [Txt ''ValueError altman_refined_table: '', Exn e], [])]"
      by (simp add: insert_handled_def e logger_error_def)
  qed
  have ins: "fst (insert_into_altman_table dm d tm q1 q2 q3 q4 q5 s) = None"
    by (simp add: insert_into_altman_table_def insert_handled_returns)
  from initialize_database_returns [of db_path target fs] ins
    insert_handled_returns [of exec sql vs dm] boot_raise boot_open exec_fail raised
  show ?thesis by blast
qed

text \<open>
  The copy to a target that can not be written, and an insert on a connection that
  failed to open: both return normally with the error in the log.
\<close>

theorem failures_logged_not_raised_witness:
  "initialize_database ''./DB_NAME'' ''~/DB_NAME'' read_only_home =
     (None, read_only_home\<lparr>fs_log :=
        [(ERROR, [Txt ''Error: Unable to create database''],
          [Exn (OSError ''Permission denied'')])]\<rparr>)
   \<and> fst (insert_into_altman_table (DataManager_init None)
            ''2024-01-01'' ''10:00'' 1 2 0 3 4 10) = None
   \<and> dm_log (snd (insert_into_altman_table (DataManager_init None)
            ''2024-01-01'' ''10:00'' 1 2 0 3 4 10)) =
       dm_log (DataManager_init None) @
         [(ERROR, [Txt ''Error inserting data: altman_refined_table - '',
                   Err ConnectionNotOpen], [])]"
proof -
  let ?dm = "DataManager_init None"
  let ?vs = "bind_values_of ''2024-01-01'' ''10:00'' 1 2 0 3 4 10"
  have closed: "\<not> is_open (?dm\<lparr>prepared := insert_altman_sql, bound := ?vs\<rparr>)"
    by (simp add: failed_manager)
  have run: "query_exec (?dm\<lparr>prepared := insert_altman_sql, bound := ?vs\<rparr>) =
      (False, ?dm\<lparr>prepared := insert_altman_sql, bound := ?vs,
                   last_error := ConnectionNotOpen\<rparr>)"
    by (simp add: query_exec_def sqlite_run_closed [OF closed])
  have boot: "initialize_database ''./DB_NAME'' ''~/DB_NAME'' read_only_home =
     (None, read_only_home\<lparr>fs_log :=
        [(ERROR, [Txt ''Error: Unable to create database''],
          [Exn (OSError ''Permission denied'')])]\<rparr>)"
    by (simp add: initialize_database_def initialize_database_try_def os_path_exists_def
        shutil_copy_def fs_logger_error_def read_only_home_def)
  from failures_logged_not_raised [of "''./DB_NAME''" "''~/DB_NAME''" read_only_home ?dm
      "''2024-01-01''" "''10:00''" 1 2 0 3 4 10 query_exec insert_altman_sql ?vs]
  have "fst (insert_into_altman_table ?dm ''2024-01-01'' ''10:00'' 1 2 0 3 4 10) = None"
    and "dm_log (snd (insert_into_altman_table ?dm ''2024-01-01'' ''10:00'' 1 2 0 3 4 10)) =
       dm_log ?dm @
         [(ERROR, [Txt ''Error inserting data: altman_refined_table - '',
                   Err ConnectionNotOpen], [])]"
    by (simp_all add: run)
  with boot show ?thesis by simp
qed

section \<open>The connection at teardown\<close>

text \<open>
  C7. \<^verbatim>\<open>closeEvent\<close> only saves the window state: the data manager after it is the data
  manager before it. For a window whose constructor opened the connection, the
  connection is open after the close event; \<^verbatim>\<open>close_database\<close>, which would close it,
  is not called.
\<close>

theorem close_event_leaves_connection_open:
  "db_manager (closeEvent w) = db_manager w
   \<and> is_open (db_manager (window_with 1 2 0 3 4))
   \<and> is_open (db_manager (closeEvent (window_with 1 2 0 3 4)))
   \<and> \<not> is_open (close_database (db_manager (window_with 1 2 0 3 4)))"
  by (simp add: closeEvent_def save_state_def window_with_def fresh_manager close_database_def
      logger_info_def)

end
